theory Spec2Isabelle
  imports Main "HOL-Library.Word"
begin

unbundle bit_operations_syntax

section \<open>Bytes, strings and JavaScript values\<close>

text \<open>
  The repository is one webhook handler in three versions: the two files joined in
  \<^verbatim>\<open>src/api/webhook.js\<close> (lines 1-104, called version A below, and lines 105-268,
  version B) and \<^verbatim>\<open>src/unnamed/part_000\<close> (version C).

  A JavaScript string is modelled by the bytes of its UTF-8 encoding, a \<open>string\<close>; so
  \<^verbatim>\<open>Buffer.from(s)\<close> has the bytes of \<open>s\<close> itself and its byte length is \<open>length s\<close>.
  \<open>undefined\<close> is \<open>None\<close>. A number is carried by the text JavaScript prints for it
  (\<^verbatim>\<open>String(n)\<close>): the handlers only test a number for truth and pass it on, and
  both zeros print as \<^verbatim>\<open>0\<close>. A \<open>JObj\<close> lists the properties of an object in the
  order JavaScript enumerates them.
\<close>

type_synonym byte = "8 word"
type_synonym word32 = "32 word"

datatype json =
    JNull
  | JBool bool
  | JNum string
  | JStr string
  | JArr "json list"
  | JObj "(string \<times> json) list"

type_synonym jsval = "json option"

datatype js_error = TypeError | RangeError | SyntaxError | StoreError

definition bytes_of :: "string \<Rightarrow> byte list" where
  "bytes_of s = map of_char s"

text \<open>\<^verbatim>\<open>ToBoolean\<close> on the values JSON can hold.\<close>

fun truthy :: "jsval \<Rightarrow> bool" where
  "truthy None = False"
| "truthy (Some JNull) = False"
| "truthy (Some (JBool b)) = b"
| "truthy (Some (JNum t)) = (t \<noteq> ''0'')"
| "truthy (Some (JStr s)) = (s \<noteq> [])"
| "truthy (Some (JArr vs)) = True"
| "truthy (Some (JObj kvs)) = True"

text \<open>
  \<^verbatim>\<open>x.p\<close> throws a TypeError on \<open>undefined\<close> and \<open>null\<close>. On an object parsed
  from JSON it is the own property or \<open>undefined\<close>; on a string, number, boolean or array
  it is \<open>undefined\<close> for every name the handlers read (\<^verbatim>\<open>meta\<close>, \<^verbatim>\<open>event_name\<close>,
  \<^verbatim>\<open>data\<close>, \<^verbatim>\<open>attributes\<close>, \<^verbatim>\<open>status\<close>, \<^verbatim>\<open>user_email\<close>, \<^verbatim>\<open>first_order_item\<close>,
  \<^verbatim>\<open>product_name\<close>, \<^verbatim>\<open>id\<close>: none is a property of a prototype).
\<close>

fun get_prop :: "jsval \<Rightarrow> string \<Rightarrow> js_error + jsval" where
  "get_prop None p = Inl TypeError"
| "get_prop (Some JNull) p = Inl TypeError"
| "get_prop (Some (JObj kvs)) p = Inr (map_of kvs p)"
| "get_prop (Some v) p = Inr None"

text \<open>\<^verbatim>\<open>x?.p\<close> on a value \<open>x\<close> already computed: \<open>undefined\<close> where \<^verbatim>\<open>x.p\<close> throws.\<close>

definition opt_prop :: "jsval \<Rightarrow> string \<Rightarrow> jsval" where
  "opt_prop x p = (case get_prop x p of Inl e \<Rightarrow> None | Inr v \<Rightarrow> v)"

text \<open>
  \<^verbatim>\<open>toLowerCase\<close> maps the ASCII capitals. Its only use is followed by
  \<^verbatim>\<open>.includes('yearly')\<close>, and no character outside ASCII has a lower case containing
  one of the letters of \<^verbatim>\<open>yearly\<close>, so the other bytes are left as they are.
\<close>

definition lower_char :: "char \<Rightarrow> char" where
  "lower_char c =
     (let n = (of_char c :: nat) in if 65 \<le> n \<and> n \<le> 90 then char_of (n + 32) else c)"

definition toLowerCase :: "string \<Rightarrow> string" where
  "toLowerCase s = map lower_char s"

definition starts_with :: "string \<Rightarrow> string \<Rightarrow> bool" where
  "starts_with s t = (take (length t) s = t)"

fun str_includes :: "string \<Rightarrow> string \<Rightarrow> bool" where
  "str_includes [] t = (t = [])"
| "str_includes (c # s) t = (starts_with (c # s) t \<or> str_includes s t)"

section \<open>SHA-256, HMAC and hexadecimal text\<close>

text \<open>
  \<^verbatim>\<open>crypto.createHmac('sha256', secret).update(body).digest('hex')\<close>: HMAC (RFC 2104)
  over SHA-256 (FIPS 180-4), printed as 64 lower-case hexadecimal digits. The round
  constants are the first 32 bits of the fractional parts of the cube roots of the first
  64 primes, the initial state those of the square roots of the first 8.
\<close>

definition K256 :: "word32 list" where
  "K256 =
    [1116352408, 1899447441, 3049323471, 3921009573, 961987163, 1508970993,
     2453635748, 2870763221, 3624381080, 310598401, 607225278, 1426881987,
     1925078388, 2162078206, 2614888103, 3248222580, 3835390401, 4022224774,
     264347078, 604807628, 770255983, 1249150122, 1555081692, 1996064986,
     2554220882, 2821834349, 2952996808, 3210313671, 3336571891, 3584528711,
     113926993, 338241895, 666307205, 773529912, 1294757372, 1396182291,
     1695183700, 1986661051, 2177026350, 2456956037, 2730485921, 2820302411,
     3259730800, 3345764771, 3516065817, 3600352804, 4094571909, 275423344,
     430227734, 506948616, 659060556, 883997877, 958139571, 1322822218,
     1537002063, 1747873779, 1955562222, 2024104815, 2227730452, 2361852424,
     2428436474, 2756734187, 3204031479, 3329325298]"

type_synonym hstate =
  "word32 \<times> word32 \<times> word32 \<times> word32 \<times> word32 \<times> word32 \<times> word32 \<times> word32"

definition H256 :: hstate where
  "H256 = (1779033703, 3144134277, 1013904242, 2773480762,
           1359893119, 2600822924, 528734635, 1541459225)"

definition rotr :: "nat \<Rightarrow> word32 \<Rightarrow> word32" where
  "rotr n x = drop_bit n x OR push_bit (32 - n) x"

definition Ch :: "word32 \<Rightarrow> word32 \<Rightarrow> word32 \<Rightarrow> word32" where
  "Ch x y z = (x AND y) XOR (NOT x AND z)"

definition Maj :: "word32 \<Rightarrow> word32 \<Rightarrow> word32 \<Rightarrow> word32" where
  "Maj x y z = (x AND y) XOR (x AND z) XOR (y AND z)"

definition Sigma0 :: "word32 \<Rightarrow> word32" where
  "Sigma0 x = rotr 2 x XOR rotr 13 x XOR rotr 22 x"

definition Sigma1 :: "word32 \<Rightarrow> word32" where
  "Sigma1 x = rotr 6 x XOR rotr 11 x XOR rotr 25 x"

definition sigma0 :: "word32 \<Rightarrow> word32" where
  "sigma0 x = rotr 7 x XOR rotr 18 x XOR drop_bit 3 x"

definition sigma1 :: "word32 \<Rightarrow> word32" where
  "sigma1 x = rotr 17 x XOR rotr 19 x XOR drop_bit 10 x"

definition be_bytes :: "nat \<Rightarrow> 'a::len word \<Rightarrow> byte list" where
  "be_bytes n v = map (\<lambda>i. ucast (drop_bit (8 * i) v)) (rev [0..<n])"

text \<open>The message, the byte 0x80, zeros up to 56 modulo 64, and the bit length in 8 bytes.\<close>

definition sha_pad :: "byte list \<Rightarrow> byte list" where
  "sha_pad m =
     m @ [0x80] @ replicate ((119 - length m mod 64) mod 64) 0
       @ be_bytes 8 (of_nat (8 * length m) :: 64 word)"

definition be_word :: "byte list \<Rightarrow> word32" where
  "be_word bs = foldl (\<lambda>acc b. push_bit 8 acc OR ucast b) 0 bs"

fun words_of :: "byte list \<Rightarrow> word32 list" where
  "words_of (a # b # c # d # rest) = be_word [a, b, c, d] # words_of rest"
| "words_of bs = []"

fun schedule :: "nat \<Rightarrow> word32 list \<Rightarrow> word32 list" where
  "schedule 0 w = w"
| "schedule (Suc n) w =
     schedule n (w @ [sigma1 (w ! (length w - 2)) + w ! (length w - 7)
                      + sigma0 (w ! (length w - 15)) + w ! (length w - 16)])"

fun sha_round :: "hstate \<Rightarrow> word32 \<times> word32 \<Rightarrow> hstate" where
  "sha_round (a, b, c, d, e, f, g, h) (k, w) =
     (let t1 = h + Sigma1 e + Ch e f g + k + w;
          t2 = Sigma0 a + Maj a b c
      in (t1 + t2, a, b, c, d + t1, e, f, g))"

fun add_state :: "hstate \<Rightarrow> hstate \<Rightarrow> hstate" where
  "add_state (a, b, c, d, e, f, g, h) (a', b', c', d', e', f', g', h') =
     (a + a', b + b', c + c', d + d', e + e', f + f', g + g', h + h')"

definition compress :: "hstate \<Rightarrow> word32 list \<Rightarrow> hstate" where
  "compress hs blk = add_state hs (foldl sha_round hs (zip K256 (schedule 48 blk)))"

fun blocks :: "nat \<Rightarrow> word32 list \<Rightarrow> word32 list list" where
  "blocks 0 ws = []"
| "blocks (Suc n) ws = take 16 ws # blocks n (drop 16 ws)"

fun state_bytes :: "hstate \<Rightarrow> byte list" where
  "state_bytes (a, b, c, d, e, f, g, h) =
     concat (map (be_bytes 4) [a, b, c, d, e, f, g, h])"

definition sha256 :: "byte list \<Rightarrow> byte list" where
  "sha256 m =
     (let ws = words_of (sha_pad m)
      in state_bytes (foldl compress H256 (blocks (length ws div 16) ws)))"

definition hmac_sha256 :: "byte list \<Rightarrow> byte list \<Rightarrow> byte list" where
  "hmac_sha256 key msg =
     (let k0 = (if 64 < length key then sha256 key else key);
          k = k0 @ replicate (64 - length k0) 0
      in sha256 (map (\<lambda>b. b XOR 0x5c) k @ sha256 (map (\<lambda>b. b XOR 0x36) k @ msg)))"

definition hex_digit :: "nat \<Rightarrow> char" where
  "hex_digit n = (if n < 10 then char_of (48 + n) else char_of (87 + n))"

definition hex :: "byte list \<Rightarrow> string" where
  "hex bs = concat (map (\<lambda>b. [hex_digit (unat b div 16), hex_digit (unat b mod 16)]) bs)"

text \<open>\<^verbatim>\<open>createHmac('sha256', secret).update(body).digest('hex')\<close>.\<close>

definition hmac_hex :: "string \<Rightarrow> string \<Rightarrow> string" where
  "hmac_hex secret msg = hex (hmac_sha256 (bytes_of secret) (bytes_of msg))"

text \<open>
  \<^verbatim>\<open>Buffer.from(s, 'hex')\<close>: two digits a byte, of either case; decoding stops at the
  first pair that is not two hexadecimal digits, and a last single character is dropped.
\<close>

definition hex_value :: "char \<Rightarrow> nat option" where
  "hex_value c =
     (let n = (of_char c :: nat) in
      if 48 \<le> n \<and> n \<le> 57 then Some (n - 48)
      else if 97 \<le> n \<and> n \<le> 102 then Some (n - 87)
      else if 65 \<le> n \<and> n \<le> 70 then Some (n - 55)
      else None)"

fun hex_decode :: "string \<Rightarrow> byte list" where
  "hex_decode (a # b # rest) =
     (case hex_value a of
        None \<Rightarrow> []
      | Some x \<Rightarrow> (case hex_value b of
                    None \<Rightarrow> []
                  | Some y \<Rightarrow> of_nat (16 * x + y) # hex_decode rest))"
| "hex_decode s = []"

text \<open>
  \<^verbatim>\<open>crypto.timingSafeEqual(a, b)\<close> throws a RangeError when the byte lengths differ,
  and compares otherwise.
\<close>

definition timingSafeEqual :: "byte list \<Rightarrow> byte list \<Rightarrow> js_error + bool" where
  "timingSafeEqual a b = (if length a = length b then Inr (a = b) else Inl RangeError)"

section \<open>JSON.stringify\<close>

definition escape_char :: "char \<Rightarrow> string" where
  "escape_char c =
     (let n = (of_char c :: nat) in
      if n = 34 then [CHR 0x5C, CHR 0x22]
      else if n = 92 then [CHR 0x5C, CHR 0x5C]
      else if n = 8 then [CHR 0x5C, CHR ''b'']
      else if n = 12 then [CHR 0x5C, CHR ''f'']
      else if n = 10 then [CHR 0x5C, CHR ''n'']
      else if n = 13 then [CHR 0x5C, CHR ''r'']
      else if n = 9 then [CHR 0x5C, CHR ''t'']
      else if n < 32 then [CHR 0x5C, CHR ''u'', CHR ''0'', CHR ''0'',
                            hex_digit (n div 16), hex_digit (n mod 16)]
      else [c])"

definition quote :: "string \<Rightarrow> string" where
  "quote s = [CHR 0x22] @ concat (map escape_char s) @ [CHR 0x22]"

fun join_comma :: "string list \<Rightarrow> string" where
  "join_comma [] = []"
| "join_comma [x] = x"
| "join_comma (x # y # ys) = x @ '','' @ join_comma (y # ys)"

fun JSON_stringify :: "json \<Rightarrow> string" where
  "JSON_stringify JNull = ''null''"
| "JSON_stringify (JBool b) = (if b then ''true'' else ''false'')"
| "JSON_stringify (JNum t) = t"
| "JSON_stringify (JStr s) = quote s"
| "JSON_stringify (JArr vs) = ''['' @ join_comma (map JSON_stringify vs) @ '']''"
| "JSON_stringify (JObj kvs) =
     ''{'' @ join_comma (map (\<lambda>kv. quote (fst kv) @ '':'' @ JSON_stringify (snd kv)) kvs) @ ''}''"

text \<open>\<^verbatim>\<open>JSON.stringify(undefined)\<close> is \<open>undefined\<close>.\<close>

definition stringify :: "jsval \<Rightarrow> string option" where
  "stringify v = map_option JSON_stringify v"

section \<open>Template literals\<close>

text \<open>
  A substitution \<^verbatim>\<open>${x}\<close> of a template literal converts \<open>x\<close> to a string
  (\<^verbatim>\<open>ToString\<close>). On the values JSON can hold: \<open>undefined\<close>, \<open>null\<close>, booleans,
  numbers and strings always convert. An array converts its elements from left to right
  and joins the texts with commas, a \<open>null\<close> element giving the empty text. An object
  converts through its \<^verbatim>\<open>toString\<close> property: that is \<^verbatim>\<open>Object.prototype.toString\<close>,
  which answers \<^verbatim>\<open>[object Object]\<close>, unless the object has a key \<^verbatim>\<open>toString\<close> of its
  own. Such a key holds a value of JSON, which cannot be called; \<^verbatim>\<open>valueOf\<close>, own or
  inherited, gives no primitive value either; and the conversion throws a TypeError.
\<close>

fun json_text :: "json \<Rightarrow> js_error + string"
  and element_texts :: "json list \<Rightarrow> js_error + string list" where
  "json_text JNull = Inr ''null''"
| "json_text (JBool b) = Inr (if b then ''true'' else ''false'')"
| "json_text (JNum t) = Inr t"
| "json_text (JStr s) = Inr s"
| "json_text (JArr vs) =
     (case element_texts vs of Inl e \<Rightarrow> Inl e | Inr ts \<Rightarrow> Inr (join_comma ts))"
| "json_text (JObj kvs) =
     (if map_of kvs ''toString'' = None then Inr ''[object Object]'' else Inl TypeError)"
| "element_texts [] = Inr []"
| "element_texts (v # vs) =
     (case (if v = JNull then Inr [] else json_text v) of
        Inl e \<Rightarrow> Inl e
      | Inr t \<Rightarrow> (case element_texts vs of Inl e \<Rightarrow> Inl e | Inr ts \<Rightarrow> Inr (t # ts)))"

fun ToString :: "jsval \<Rightarrow> js_error + string" where
  "ToString None = Inr ''undefined''"
| "ToString (Some v) = json_text v"

text \<open>
  \<^verbatim>\<open>console.log\<close> of a template literal whose substitutions are \<open>vs\<close>, in the order
  written: the first conversion that throws ends the statement. What is printed is no
  part of the model.
\<close>

fun console_log :: "jsval list \<Rightarrow> js_error + unit" where
  "console_log [] = Inr ()"
| "console_log (v # vs) = (case ToString v of Inl e \<Rightarrow> Inl e | Inr t \<Rightarrow> console_log vs)"

section \<open>The record store\<close>

text \<open>
  Modelled from the spec: the record store (Firestore, reached through firebase-admin) is
  outside the repository. \<^verbatim>\<open>db.collection('users').doc(key).set(data, { merge: true })\<close> is
  the spec's merge-upsert: it creates the record when absent and otherwise updates only
  the fields of \<open>data\<close>, leaving the others as they are. The value
  \<^verbatim>\<open>FieldValue.serverTimestamp()\<close> is a placeholder that the store replaces by its own
  time \<open>now\<close> when it commits the write. Whether the store accepts a write (a usable
  document id, no \<open>undefined\<close> field, the service reachable) is the store's decision, the
  input \<open>ok\<close> of a request; a refused write throws. A field of \<open>data\<close> replaces the
  stored field as a whole. \<open>upserts\<close> lists the writes the handler has called for,
  accepted or not.
\<close>

datatype fieldval = Val jsval | ServerTimestamp

datatype stored = Plain jsval | Timestamp nat

type_synonym document = "string \<rightharpoonup> stored"

type_synonym writedata = "(string \<times> fieldval) list"

record firestore =
  docs :: "jsval \<Rightarrow> document option"
  upserts :: "(jsval \<times> writedata) list"

fun resolve :: "nat \<Rightarrow> fieldval \<Rightarrow> stored" where
  "resolve now (Val v) = Plain v"
| "resolve now ServerTimestamp = Timestamp now"

definition merge_doc :: "nat \<Rightarrow> document option \<Rightarrow> writedata \<Rightarrow> document" where
  "merge_doc now old data =
     (case old of None \<Rightarrow> Map.empty | Some d \<Rightarrow> d)
       ++ map_of (map (\<lambda>fv. (fst fv, resolve now (snd fv))) data)"

definition set_merge ::
  "bool \<Rightarrow> nat \<Rightarrow> jsval \<Rightarrow> writedata \<Rightarrow> firestore \<Rightarrow> (js_error + unit) \<times> firestore" where
  "set_merge ok now key data db =
     (if ok
      then (Inr (), db\<lparr>docs := (docs db)(key := Some (merge_doc now (docs db key) data)),
                       upserts := upserts db @ [(key, data)]\<rparr>)
      else (Inl StoreError, db\<lparr>upserts := upserts db @ [(key, data)]\<rparr>))"

section \<open>Requests and responses\<close>

datatype chunk = StringChunk string | BufferChunk string

record request =
  http_method :: string
  x_signature :: "string option"
  stream :: "chunk list"
  body :: jsval

text \<open>
  \<open>x_signature\<close> is \<^verbatim>\<open>req.headers['x-signature']\<close>; \<open>stream\<close> is the body as it arrives,
  read by version A, which switches the host's body parser off; \<open>body\<close> is
  \<^verbatim>\<open>req.body\<close>, the value the host's parser made of the body for versions B and C.
\<close>

datatype payload = Received | Error string | ErrorDetails string js_error

type_synonym response = "nat \<times> payload"

text \<open>
  \<^verbatim>\<open>getRawBody\<close> (webhook.js 13-19): a chunk that is a string is turned into its bytes,
  and the chunks are concatenated.
\<close>

fun chunk_bytes :: "chunk \<Rightarrow> string" where
  "chunk_bytes (StringChunk s) = s"
| "chunk_bytes (BufferChunk b) = b"

definition getRawBody :: "chunk list \<Rightarrow> string" where
  "getRawBody readable = concat (map chunk_bytes readable)"

text \<open>\<^verbatim>\<open>!x\<close> for a header or an environment variable: \<open>undefined\<close> or the empty string.\<close>

fun absent :: "string option \<Rightarrow> bool" where
  "absent None = True"
| "absent (Some s) = (s = [])"

text \<open>
  The bytes each version signs: \<^verbatim>\<open>await getRawBody(req)\<close> in version A (webhook.js 45),
  \<^verbatim>\<open>JSON.stringify(req.body)\<close> in versions B and C (webhook.js 165, part_000 49).
\<close>

definition rawBody_A :: "request \<Rightarrow> string" where
  "rawBody_A req = getRawBody (stream req)"

definition rawBody_BC :: "request \<Rightarrow> string option" where
  "rawBody_BC req = stringify (body req)"

section \<open>Signature verification\<close>

text \<open>Version A, webhook.js 49-56: both sides are decoded from hexadecimal.\<close>

definition verify_A :: "string \<Rightarrow> string \<Rightarrow> string \<Rightarrow> js_error + bool" where
  "verify_A rawBody signature secret =
     timingSafeEqual (hex_decode signature) (hex_decode (hmac_hex secret rawBody))"

text \<open>
  Version B, webhook.js 125-143. \<^verbatim>\<open>hmac.update(undefined)\<close> and a length mismatch in
  \<^verbatim>\<open>timingSafeEqual\<close> throw inside the \<^verbatim>\<open>try\<close>, and the \<^verbatim>\<open>catch\<close> returns false.
\<close>

fun verifySignature_B :: "string option \<Rightarrow> string option \<Rightarrow> string option \<Rightarrow> bool" where
  "verifySignature_B rawBody (Some signature) (Some secret) =
     (if signature = [] \<or> secret = [] then False
      else (case rawBody of
              None \<Rightarrow> False
            | Some b \<Rightarrow>
                (case timingSafeEqual (bytes_of signature) (bytes_of (hmac_hex secret b)) of
                   Inl e \<Rightarrow> False
                 | Inr r \<Rightarrow> r)))"
| "verifySignature_B rawBody signature secret = False"

text \<open>Version C, part_000 23-30: no guard and no \<^verbatim>\<open>try\<close>.\<close>

fun verifySignature_C ::
  "string option \<Rightarrow> string option \<Rightarrow> string option \<Rightarrow> js_error + bool" where
  "verifySignature_C (Some payload) (Some signature) (Some secret) =
     timingSafeEqual (bytes_of signature) (bytes_of (hmac_hex secret payload))"
| "verifySignature_C payload signature secret = Inl TypeError"

section \<open>Event projection\<close>

text \<open>\<^verbatim>\<open>x || ''\<close>.\<close>

definition or_empty :: "jsval \<Rightarrow> jsval" where
  "or_empty v = (if truthy v then v else Some (JStr []))"

text \<open>
  \<^verbatim>\<open>productName.toLowerCase().includes('yearly')\<close> and the choice it makes; a value
  that is not a string has no \<^verbatim>\<open>toLowerCase\<close>, and the call throws.
\<close>

definition type_of_name :: "string \<Rightarrow> string" where
  "type_of_name name =
     (if str_includes (toLowerCase name) ''yearly'' then ''yearly'' else ''lifetime'')"

fun subscription_type :: "jsval \<Rightarrow> js_error + string" where
  "subscription_type (Some (JStr name)) = Inr (type_of_name name)"
| "subscription_type v = Inl TypeError"

definition order_fields :: "jsval \<Rightarrow> string \<Rightarrow> jsval \<Rightarrow> jsval \<Rightarrow> writedata" where
  "order_fields email subscriptionType orderId productName =
     [(''email'', Val email),
      (''subscription'', Val (Some (JStr ''premium''))),
      (''subscriptionType'', Val (Some (JStr subscriptionType))),
      (''purchaseDate'', ServerTimestamp),
      (''lemonSqueezyOrderId'', Val orderId),
      (''productName'', Val productName)]"

text \<open>
  A write followed by a log (\<^verbatim>\<open>await ... .set(...); console.log(`...`)\<close>): when the
  write is refused the log is not reached; when the log throws, the write has been done.
\<close>

definition then_log ::
  "(js_error + unit) \<times> firestore \<Rightarrow> jsval list \<Rightarrow> (js_error + unit) \<times> firestore" where
  "then_log r vs =
     (case r of
        (Inl e, db) \<Rightarrow> (Inl e, db)
      | (Inr u, db) \<Rightarrow> (case console_log vs of Inl e \<Rightarrow> (Inl e, db) | Inr u \<Rightarrow> (Inr (), db)))"

text \<open>
  The \<^verbatim>\<open>order_created\<close> branch of version A (webhook.js 75-93): one log, of the email,
  after the write.
\<close>

definition order_created_A ::
  "bool \<Rightarrow> nat \<Rightarrow> jsval \<Rightarrow> jsval \<Rightarrow> firestore \<Rightarrow> (js_error + unit) \<times> firestore" where
  "order_created_A ok now event attributes db =
     (case get_prop attributes ''user_email'' of
        Inl e \<Rightarrow> (Inl e, db)
      | Inr email \<Rightarrow>
     (case get_prop attributes ''first_order_item'' of
        Inl e \<Rightarrow> (Inl e, db)
      | Inr item \<Rightarrow>
     (case get_prop event ''data'' of
        Inl e \<Rightarrow> (Inl e, db)
      | Inr data \<Rightarrow>
     (let productName = or_empty (opt_prop item ''product_name'');
          orderId = opt_prop data ''id''
      in case subscription_type productName of
           Inl e \<Rightarrow> (Inl e, db)
         | Inr subscriptionType \<Rightarrow>
             then_log
               (set_merge ok now email
                  (order_fields email subscriptionType orderId productName) db)
               [email]))))"

text \<open>
  The \<^verbatim>\<open>order_created\<close> branch of versions B and C (webhook.js 193-216, part_000
  67-90): the email and the product name are logged before the type is computed, the
  email and the type after the write.
\<close>

definition order_created ::
  "bool \<Rightarrow> nat \<Rightarrow> jsval \<Rightarrow> jsval \<Rightarrow> firestore \<Rightarrow> (js_error + unit) \<times> firestore" where
  "order_created ok now event attributes db =
     (case get_prop attributes ''user_email'' of
        Inl e \<Rightarrow> (Inl e, db)
      | Inr email \<Rightarrow>
     (case get_prop attributes ''first_order_item'' of
        Inl e \<Rightarrow> (Inl e, db)
      | Inr item \<Rightarrow>
     (case get_prop event ''data'' of
        Inl e \<Rightarrow> (Inl e, db)
      | Inr data \<Rightarrow>
     (let productName = or_empty (opt_prop item ''product_name'');
          orderId = opt_prop data ''id''
      in case console_log [email] of
           Inl e \<Rightarrow> (Inl e, db)
         | Inr u \<Rightarrow>
        (case console_log [productName] of
           Inl e \<Rightarrow> (Inl e, db)
         | Inr u \<Rightarrow>
        (case subscription_type productName of
           Inl e \<Rightarrow> (Inl e, db)
         | Inr subscriptionType \<Rightarrow>
             then_log
               (set_merge ok now email
                  (order_fields email subscriptionType orderId productName) db)
               [email, Some (JStr subscriptionType)]))))))"

definition created_fields :: "jsval \<Rightarrow> jsval \<Rightarrow> writedata" where
  "created_fields email subscriptionId =
     [(''email'', Val email),
      (''subscription'', Val (Some (JStr ''premium''))),
      (''subscriptionType'', Val (Some (JStr ''yearly''))),
      (''subscriptionStartDate'', ServerTimestamp),
      (''lemonSqueezySubscriptionId'', Val subscriptionId)]"

text \<open>
  The \<^verbatim>\<open>subscription_created\<close> branch. Version B (webhook.js 220-233) logs the email
  before the write and after it, version C (part_000 94-105) after it only.
\<close>

definition subscription_created_B ::
  "bool \<Rightarrow> nat \<Rightarrow> jsval \<Rightarrow> jsval \<Rightarrow> firestore \<Rightarrow> (js_error + unit) \<times> firestore" where
  "subscription_created_B ok now event attributes db =
     (case get_prop attributes ''user_email'' of
        Inl e \<Rightarrow> (Inl e, db)
      | Inr email \<Rightarrow>
     (case get_prop event ''data'' of
        Inl e \<Rightarrow> (Inl e, db)
      | Inr data \<Rightarrow>
     (case console_log [email] of
        Inl e \<Rightarrow> (Inl e, db)
      | Inr u \<Rightarrow>
          then_log (set_merge ok now email (created_fields email (opt_prop data ''id'')) db)
            [email])))"

definition subscription_created_C ::
  "bool \<Rightarrow> nat \<Rightarrow> jsval \<Rightarrow> jsval \<Rightarrow> firestore \<Rightarrow> (js_error + unit) \<times> firestore" where
  "subscription_created_C ok now event attributes db =
     (case get_prop attributes ''user_email'' of
        Inl e \<Rightarrow> (Inl e, db)
      | Inr email \<Rightarrow>
     (case get_prop event ''data'' of
        Inl e \<Rightarrow> (Inl e, db)
      | Inr data \<Rightarrow>
          then_log (set_merge ok now email (created_fields email (opt_prop data ''id'')) db)
            [email]))"

definition plan_of_status :: "jsval \<Rightarrow> string" where
  "plan_of_status status =
     (if status = Some (JStr ''active'') \<or> status = Some (JStr ''on_trial'')
      then ''premium'' else ''free'')"

definition updated_fields :: "jsval \<Rightarrow> jsval \<Rightarrow> writedata" where
  "updated_fields email status =
     [(''email'', Val email),
      (''subscription'', Val (Some (JStr (plan_of_status status)))),
      (''subscriptionStatus'', Val status),
      (''lastUpdated'', ServerTimestamp)]"

text \<open>
  The \<^verbatim>\<open>subscription_updated\<close> branch. Version B (webhook.js 237-255) logs the email
  and the status before the write and after it, version C (part_000 109-125) after it
  only.
\<close>

definition subscription_updated_B ::
  "bool \<Rightarrow> nat \<Rightarrow> jsval \<Rightarrow> firestore \<Rightarrow> (js_error + unit) \<times> firestore" where
  "subscription_updated_B ok now attributes db =
     (case get_prop attributes ''user_email'' of
        Inl e \<Rightarrow> (Inl e, db)
      | Inr email \<Rightarrow>
     (case get_prop attributes ''status'' of
        Inl e \<Rightarrow> (Inl e, db)
      | Inr status \<Rightarrow>
     (case console_log [email, status] of
        Inl e \<Rightarrow> (Inl e, db)
      | Inr u \<Rightarrow>
          then_log (set_merge ok now email (updated_fields email status) db) [email, status])))"

definition subscription_updated_C ::
  "bool \<Rightarrow> nat \<Rightarrow> jsval \<Rightarrow> firestore \<Rightarrow> (js_error + unit) \<times> firestore" where
  "subscription_updated_C ok now attributes db =
     (case get_prop attributes ''user_email'' of
        Inl e \<Rightarrow> (Inl e, db)
      | Inr email \<Rightarrow>
     (case get_prop attributes ''status'' of
        Inl e \<Rightarrow> (Inl e, db)
      | Inr status \<Rightarrow>
          then_log (set_merge ok now email (updated_fields email status) db) [email, status]))"

definition is_paid_order :: "jsval \<Rightarrow> jsval \<Rightarrow> bool" where
  "is_paid_order eventName attributes =
     (eventName = Some (JStr ''order_created'')
      \<and> opt_prop attributes ''status'' = Some (JStr ''paid''))"

text \<open>The \<^verbatim>\<open>else\<close> of versions B and C, which logs the event name (webhook.js 258, part_000 128).\<close>

definition unhandled :: "jsval \<Rightarrow> firestore \<Rightarrow> (js_error + unit) \<times> firestore" where
  "unhandled eventName db =
     (case console_log [eventName] of Inl e \<Rightarrow> (Inl e, db) | Inr u \<Rightarrow> (Inr (), db))"

text \<open>
  From \<^verbatim>\<open>const event\<close> to \<^verbatim>\<open>res.status(200)\<close>: version A (webhook.js 66-98), which
  knows one event, version B (webhook.js 184-262) and version C (part_000 58-132). Each
  logs the event name before it looks at it (webhook.js 70 and 188, part_000 62).
\<close>

definition project_A ::
  "bool \<Rightarrow> nat \<Rightarrow> jsval \<Rightarrow> firestore \<Rightarrow> (js_error + response) \<times> firestore" where
  "project_A ok now event db =
     (case get_prop event ''meta'' of
        Inl e \<Rightarrow> (Inl e, db)
      | Inr meta \<Rightarrow>
     (case get_prop event ''data'' of
        Inl e \<Rightarrow> (Inl e, db)
      | Inr data \<Rightarrow>
     (let eventName = opt_prop meta ''event_name'';
          attributes = opt_prop data ''attributes''
      in case console_log [eventName] of
           Inl e \<Rightarrow> (Inl e, db)
         | Inr u \<Rightarrow>
        (case (if is_paid_order eventName attributes
               then order_created_A ok now event attributes db
               else (Inr (), db)) of
           (Inl e, db') \<Rightarrow> (Inl e, db')
         | (Inr u, db') \<Rightarrow> (Inr (200, Received), db')))))"

definition project_B ::
  "bool \<Rightarrow> nat \<Rightarrow> jsval \<Rightarrow> firestore \<Rightarrow> (js_error + response) \<times> firestore" where
  "project_B ok now event db =
     (case get_prop event ''meta'' of
        Inl e \<Rightarrow> (Inl e, db)
      | Inr meta \<Rightarrow>
     (case get_prop event ''data'' of
        Inl e \<Rightarrow> (Inl e, db)
      | Inr data \<Rightarrow>
     (let eventName = opt_prop meta ''event_name'';
          attributes = opt_prop data ''attributes''
      in case console_log [eventName] of
           Inl e \<Rightarrow> (Inl e, db)
         | Inr u \<Rightarrow>
        (case (if is_paid_order eventName attributes
               then order_created ok now event attributes db
               else if eventName = Some (JStr ''subscription_created'')
               then subscription_created_B ok now event attributes db
               else if eventName = Some (JStr ''subscription_updated'')
               then subscription_updated_B ok now attributes db
               else unhandled eventName db) of
           (Inl e, db') \<Rightarrow> (Inl e, db')
         | (Inr u, db') \<Rightarrow> (Inr (200, Received), db')))))"

definition project_C ::
  "bool \<Rightarrow> nat \<Rightarrow> jsval \<Rightarrow> firestore \<Rightarrow> (js_error + response) \<times> firestore" where
  "project_C ok now event db =
     (case get_prop event ''meta'' of
        Inl e \<Rightarrow> (Inl e, db)
      | Inr meta \<Rightarrow>
     (case get_prop event ''data'' of
        Inl e \<Rightarrow> (Inl e, db)
      | Inr data \<Rightarrow>
     (let eventName = opt_prop meta ''event_name'';
          attributes = opt_prop data ''attributes''
      in case console_log [eventName] of
           Inl e \<Rightarrow> (Inl e, db)
         | Inr u \<Rightarrow>
        (case (if is_paid_order eventName attributes
               then order_created ok now event attributes db
               else if eventName = Some (JStr ''subscription_created'')
               then subscription_created_C ok now event attributes db
               else if eventName = Some (JStr ''subscription_updated'')
               then subscription_updated_C ok now attributes db
               else unhandled eventName db) of
           (Inl e, db') \<Rightarrow> (Inl e, db')
         | (Inr u, db') \<Rightarrow> (Inr (200, Received), db')))))"

section \<open>The three handlers\<close>

text \<open>
  Each takes the environment (\<open>secret\<close> is \<^verbatim>\<open>LEMON_SQUEEZY_WEBHOOK_SECRET\<close>, \<open>ok\<close> and
  \<open>now\<close> are the store's verdict and clock), the request and the store, and returns the
  response and the store. \<open>try_X\<close> is the body of the \<^verbatim>\<open>try\<close>; the \<^verbatim>\<open>catch\<close> answers 500.

  Version A (webhook.js 35-104) reads the raw body; \<open>parse\<close> is
  \<^verbatim>\<open>JSON.parse(rawBody.toString())\<close>, \<open>None\<close> where it throws a SyntaxError.
  \<open>check_A\<close> is the step at webhook.js 48-63, whose result is \<^verbatim>\<open>isValid\<close>: verification
  runs only when both the secret and the signature are there.
\<close>

definition check_A :: "string option \<Rightarrow> request \<Rightarrow> js_error + bool" where
  "check_A secret req =
     (case (secret, x_signature req) of
        (Some sk, Some sg) \<Rightarrow>
          if sk = [] \<or> sg = [] then Inr True else verify_A (rawBody_A req) sg sk
      | (sk, sg) \<Rightarrow> Inr True)"

definition try_A ::
  "(string \<Rightarrow> json option) \<Rightarrow> string option \<Rightarrow> bool \<Rightarrow> nat \<Rightarrow> request \<Rightarrow> firestore
     \<Rightarrow> (js_error + response) \<times> firestore" where
  "try_A parse secret ok now req db =
     (case check_A secret req of
        Inl e \<Rightarrow> (Inl e, db)
      | Inr isValid \<Rightarrow>
          if isValid
          then (case parse (rawBody_A req) of
                  None \<Rightarrow> (Inl SyntaxError, db)
                | Some event \<Rightarrow> project_A ok now (Some event) db)
          else (Inr (401, Error ''Invalid signature''), db))"

definition handler_A ::
  "(string \<Rightarrow> json option) \<Rightarrow> string option \<Rightarrow> bool \<Rightarrow> nat \<Rightarrow> request \<Rightarrow> firestore
     \<Rightarrow> response \<times> firestore" where
  "handler_A parse secret ok now req db =
     (if http_method req = ''POST''
      then (case try_A parse secret ok now req db of
              (Inl e, db') \<Rightarrow> ((500, Error ''Internal server error''), db')
            | (Inr r, db') \<Rightarrow> (r, db'))
      else ((405, Error ''Method not allowed''), db))"

text \<open>
  Version B (webhook.js 145-268) signs \<^verbatim>\<open>JSON.stringify(req.body)\<close> and lets a request
  with no signature through.
\<close>

definition try_B ::
  "string option \<Rightarrow> bool \<Rightarrow> nat \<Rightarrow> request \<Rightarrow> firestore
     \<Rightarrow> (js_error + response) \<times> firestore" where
  "try_B secret ok now req db =
     (if absent secret then (Inr (500, Error ''Webhook secret not configured''), db)
      else if absent (x_signature req) then project_B ok now (body req) db
      else if verifySignature_B (rawBody_BC req) (x_signature req) secret
      then project_B ok now (body req) db
      else (Inr (401, Error ''Invalid signature''), db))"

definition handler_B ::
  "string option \<Rightarrow> bool \<Rightarrow> nat \<Rightarrow> request \<Rightarrow> firestore \<Rightarrow> response \<times> firestore" where
  "handler_B secret ok now req db =
     (if http_method req = ''POST''
      then (case try_B secret ok now req db of
              (Inl e, db') \<Rightarrow> ((500, ErrorDetails ''Internal server error'' e), db')
            | (Inr r, db') \<Rightarrow> (r, db'))
      else ((405, Error ''Method not allowed''), db))"

text \<open>Version C (part_000 32-138) answers 401 when the signature or the secret is missing.\<close>

definition try_C ::
  "string option \<Rightarrow> bool \<Rightarrow> nat \<Rightarrow> request \<Rightarrow> firestore
     \<Rightarrow> (js_error + response) \<times> firestore" where
  "try_C secret ok now req db =
     (if absent (x_signature req) \<or> absent secret
      then (Inr (401, Error ''Unauthorized''), db)
      else (case verifySignature_C (rawBody_BC req) (x_signature req) secret of
              Inl e \<Rightarrow> (Inl e, db)
            | Inr isValid \<Rightarrow>
                if isValid then project_C ok now (body req) db
                else (Inr (401, Error ''Invalid signature''), db)))"

definition handler_C ::
  "string option \<Rightarrow> bool \<Rightarrow> nat \<Rightarrow> request \<Rightarrow> firestore \<Rightarrow> response \<times> firestore" where
  "handler_C secret ok now req db =
     (if http_method req = ''POST''
      then (case try_C secret ok now req db of
              (Inl e, db') \<Rightarrow> ((500, Error ''Internal server error''), db')
            | (Inr r, db') \<Rightarrow> (r, db'))
      else ((405, Error ''Method not allowed''), db))"

section \<open>Reading a field of the store\<close>

definition field_of :: "firestore \<Rightarrow> jsval \<Rightarrow> string \<Rightarrow> stored option" where
  "field_of db key f = (case docs db key of None \<Rightarrow> None | Some d \<Rightarrow> d f)"

section \<open>A reader for the JSON texts of the examples\<close>

text \<open>
  \<^verbatim>\<open>JSON.parse\<close> is a parameter of version A and the host's business in versions B and
  C. For the examples below, \<open>JSON_parse\<close> reads a fragment of JSON: objects whose keys
  are distinct and not written in digits only, arrays, strings with the two-character
  escapes, \<^verbatim>\<open>true\<close>, \<^verbatim>\<open>false\<close>, \<^verbatim>\<open>null\<close>, and whole numbers of at most 15 digits with
  no sign, where the text JavaScript prints for the number is the text read. It answers
  \<open>None\<close> on any other text, inside JSON or not; \<open>n\<close> bounds the depth of the reading.
\<close>

definition is_ws :: "char \<Rightarrow> bool" where
  "is_ws c = (c = CHR 0x20 \<or> c = CHR 0x09 \<or> c = CHR 0x0A \<or> c = CHR 0x0D)"

definition skip_ws :: "string \<Rightarrow> string" where
  "skip_ws s = dropWhile is_ws s"

definition is_digit :: "char \<Rightarrow> bool" where
  "is_digit c = (let n = (of_char c :: nat) in 48 \<le> n \<and> n \<le> 57)"

definition unescape :: "char \<Rightarrow> char option" where
  "unescape c =
     (if c = CHR 0x22 then Some (CHR 0x22)
      else if c = CHR 0x5C then Some (CHR 0x5C)
      else if c = CHR ''/'' then Some (CHR ''/'')
      else if c = CHR ''b'' then Some (CHR 0x08)
      else if c = CHR ''f'' then Some (CHR 0x0C)
      else if c = CHR ''n'' then Some (CHR 0x0A)
      else if c = CHR ''r'' then Some (CHR 0x0D)
      else if c = CHR ''t'' then Some (CHR 0x09)
      else None)"

fun read_string :: "string \<Rightarrow> (string \<times> string) option" where
  "read_string [] = None"
| "read_string (c # cs) =
     (if c = CHR 0x22 then Some ([], cs)
      else if c = CHR 0x5C then
        (case cs of
           [] \<Rightarrow> None
         | e # cs' \<Rightarrow>
             (case unescape e of
                None \<Rightarrow> None
              | Some ch \<Rightarrow>
                  (case read_string cs' of
                     None \<Rightarrow> None
                   | Some (t, r) \<Rightarrow> Some (ch # t, r))))
      else if (of_char c :: nat) < 32 then None
      else (case read_string cs of
              None \<Rightarrow> None
            | Some (t, r) \<Rightarrow> Some (c # t, r)))"

definition read_number :: "string \<Rightarrow> (json \<times> string) option" where
  "read_number s =
     (let ds = takeWhile is_digit s; r = dropWhile is_digit s
      in if ds = [] \<or> 15 < length ds \<or> (1 < length ds \<and> hd ds = CHR ''0'')
            \<or> starts_with r ''.'' \<or> starts_with r ''e'' \<or> starts_with r ''E''
         then None
         else Some (JNum ds, r))"

definition plain_keys :: "(string \<times> json) list \<Rightarrow> bool" where
  "plain_keys kvs =
     (distinct (map fst kvs) \<and> list_all (\<lambda>kv. fst kv = [] \<or> \<not> list_all is_digit (fst kv)) kvs)"

fun read_value :: "nat \<Rightarrow> string \<Rightarrow> (json \<times> string) option"
  and read_elements :: "nat \<Rightarrow> string \<Rightarrow> (json list \<times> string) option"
  and read_members :: "nat \<Rightarrow> string \<Rightarrow> ((string \<times> json) list \<times> string) option" where
  "read_value 0 s = None"
| "read_value (Suc n) s =
     (case skip_ws s of
        [] \<Rightarrow> None
      | c # r \<Rightarrow>
          if c = CHR 0x22 then
            (case read_string r of
               None \<Rightarrow> None
             | Some (t, r') \<Rightarrow> Some (JStr t, r'))
          else if c = CHR ''['' then
            (if starts_with (skip_ws r) '']'' then Some (JArr [], drop 1 (skip_ws r))
             else (case read_elements n r of
                     None \<Rightarrow> None
                   | Some (vs, r') \<Rightarrow> Some (JArr vs, r')))
          else if c = CHR ''{'' then
            (if starts_with (skip_ws r) ''}'' then Some (JObj [], drop 1 (skip_ws r))
             else (case read_members n r of
                     None \<Rightarrow> None
                   | Some (kvs, r') \<Rightarrow> if plain_keys kvs then Some (JObj kvs, r') else None))
          else if starts_with (c # r) ''null'' then Some (JNull, drop 3 r)
          else if starts_with (c # r) ''true'' then Some (JBool True, drop 3 r)
          else if starts_with (c # r) ''false'' then Some (JBool False, drop 4 r)
          else read_number (c # r))"
| "read_elements 0 s = None"
| "read_elements (Suc n) s =
     (case read_value n s of
        None \<Rightarrow> None
      | Some (v, r) \<Rightarrow>
          (case skip_ws r of
             [] \<Rightarrow> None
           | c # r' \<Rightarrow>
               if c = CHR '','' then
                 (case read_elements n r' of
                    None \<Rightarrow> None
                  | Some (vs, r'') \<Rightarrow> Some (v # vs, r''))
               else if c = CHR '']'' then Some ([v], r')
               else None))"
| "read_members 0 s = None"
| "read_members (Suc n) s =
     (case skip_ws s of
        [] \<Rightarrow> None
      | q # r \<Rightarrow>
          if q = CHR 0x22 then
            (case read_string r of
               None \<Rightarrow> None
             | Some (k, r1) \<Rightarrow>
                 (case skip_ws r1 of
                    [] \<Rightarrow> None
                  | c # r2 \<Rightarrow>
                      if c = CHR '':'' then
                        (case read_value n r2 of
                           None \<Rightarrow> None
                         | Some (v, r3) \<Rightarrow>
                             (case skip_ws r3 of
                                [] \<Rightarrow> None
                              | d # r4 \<Rightarrow>
                                  if d = CHR '','' then
                                    (case read_members n r4 of
                                       None \<Rightarrow> None
                                     | Some (kvs, r5) \<Rightarrow> Some ((k, v) # kvs, r5))
                                  else if d = CHR ''}'' then Some ([(k, v)], r4)
                                  else None))
                      else None))
          else None)"

definition JSON_parse :: "string \<Rightarrow> json option" where
  "JSON_parse s =
     (case read_value (Suc (Suc (length s + length s))) s of
        None \<Rightarrow> None
      | Some (v, r) \<Rightarrow> if skip_ws r = [] then Some v else None)"

section \<open>Example requests\<close>

definition order_event :: json where
  "order_event =
     JObj [(''meta'', JObj [(''event_name'', JStr ''order_created'')]),
           (''data'', JObj [(''id'', JStr ''1001''),
                            (''attributes'',
                             JObj [(''status'', JStr ''paid''),
                                   (''user_email'', JStr ''ann@example.com''),
                                   (''first_order_item'',
                                    JObj [(''product_name'', JStr ''Pro Yearly Plan'')])])])]"

definition order_text :: string where
  \<open>order_text = ''{"meta": {"event_name": "order_created"}, "data": {"id": "1001", "attributes": {"status": "paid", "user_email": "ann@example.com", "first_order_item": {"product_name": "Pro Yearly Plan"}}}}''\<close>

definition update_event :: "string \<Rightarrow> json" where
  "update_event status =
     JObj [(''meta'', JObj [(''event_name'', JStr ''subscription_updated'')]),
           (''data'', JObj [(''id'', JStr ''77''),
                            (''attributes'',
                             JObj [(''status'', JStr status),
                                   (''user_email'', JStr ''ann@example.com'')])])]"

definition bare_event :: "string \<Rightarrow> json" where
  "bare_event name =
     JObj [(''meta'', JObj [(''event_name'', JStr name)]), (''data'', JObj [(''id'', JStr ''77'')])]"

definition post :: "string option \<Rightarrow> string \<Rightarrow> jsval \<Rightarrow> request" where
  "post sig raw v =
     \<lparr>http_method = ''POST'', x_signature = sig, stream = [BufferChunk raw], body = v\<rparr>"

definition signed_A :: "string \<Rightarrow> string \<Rightarrow> request" where
  "signed_A sk raw = post (Some (hmac_hex sk raw)) raw None"

definition signed_BC :: "string \<Rightarrow> json \<Rightarrow> request" where
  "signed_BC sk ev =
     post (Some (hmac_hex sk (JSON_stringify ev))) (JSON_stringify ev) (Some ev)"

text \<open>
  A header arrives as bytes, and the host reads each byte as one character (so does a
  string of characters below 256, given by their codes); a character from 128 on takes
  two bytes in UTF-8. \<open>mutate_bit i j\<close> flips bit \<open>j\<close> of byte \<open>i\<close>.
\<close>

definition header_text :: "string \<Rightarrow> string" where
  "header_text bs =
     concat (map (\<lambda>c. let n = (of_char c :: nat)
                      in if n < 128 then [c]
                         else [char_of (192 + n div 64), char_of (128 + n mod 64)]) bs)"

definition flip :: "nat \<Rightarrow> nat \<Rightarrow> nat" where
  "flip j n = (if even (n div 2 ^ j) then n + 2 ^ j else n - 2 ^ j)"

definition mutate_bit :: "nat \<Rightarrow> nat \<Rightarrow> string \<Rightarrow> string" where
  "mutate_bit i j s = s[i := char_of (flip j (of_char (s ! i)))]"

definition empty_db :: firestore where
  "empty_db = \<lparr>docs = (\<lambda>k. None), upserts = []\<rparr>"

definition ann :: jsval where
  "ann = Some (JStr ''ann@example.com'')"

text \<open>The store after the example order has been written at time \<open>t\<close> to an empty store.\<close>

definition ann_paid :: "nat \<Rightarrow> firestore" where
  "ann_paid t =
     \<lparr>docs = (\<lambda>k. None)(ann := Some [''email'' \<mapsto> Plain ann,
                                        ''subscription'' \<mapsto> Plain (Some (JStr ''premium'')),
                                        ''subscriptionType'' \<mapsto> Plain (Some (JStr ''yearly'')),
                                        ''purchaseDate'' \<mapsto> Timestamp t,
                                        ''lemonSqueezyOrderId'' \<mapsto> Plain (Some (JStr ''1001'')),
                                        ''productName'' \<mapsto> Plain (Some (JStr ''Pro Yearly Plan''))]),
      upserts = [(ann, order_fields ann ''yearly'' (Some (JStr ''1001''))
                         (Some (JStr ''Pro Yearly Plan'')))]\<rparr>"

definition ann_db :: firestore where
  "ann_db =
     \<lparr>docs = (\<lambda>k. None)(ann := Some [''email'' \<mapsto> Plain ann,
                                        ''subscription'' \<mapsto> Plain (Some (JStr ''premium'')),
                                        ''subscriptionType'' \<mapsto> Plain (Some (JStr ''lifetime'')),
                                        ''purchaseDate'' \<mapsto> Timestamp 5,
                                        ''lemonSqueezyOrderId'' \<mapsto> Plain (Some (JStr ''1001'')),
                                        ''productName'' \<mapsto> Plain (Some (JStr ''Pro Lifetime Plan''))]),
      upserts = []\<rparr>"

text \<open>The example order with another product name, and with no product name.\<close>

definition order_named :: "string \<Rightarrow> json" where
  "order_named name =
     JObj [(''meta'', JObj [(''event_name'', JStr ''order_created'')]),
           (''data'', JObj [(''id'', JStr ''1001''),
                            (''attributes'',
                             JObj [(''status'', JStr ''paid''),
                                   (''user_email'', JStr ''ann@example.com''),
                                   (''first_order_item'',
                                    JObj [(''product_name'', JStr name)])])])]"

definition order_unnamed :: json where
  "order_unnamed =
     JObj [(''meta'', JObj [(''event_name'', JStr ''order_created'')]),
           (''data'', JObj [(''id'', JStr ''1001''),
                            (''attributes'',
                             JObj [(''status'', JStr ''paid''),
                                   (''user_email'', JStr ''ann@example.com''),
                                   (''first_order_item'', JObj [(''price'', JNum ''4900'')])])])]"

text \<open>A \<^verbatim>\<open>subscription_updated\<close> event whose status is any value of JSON.\<close>

definition update_with :: "json \<Rightarrow> json" where
  "update_with status =
     JObj [(''meta'', JObj [(''event_name'', JStr ''subscription_updated'')]),
           (''data'', JObj [(''id'', JStr ''77''),
                            (''attributes'',
                             JObj [(''status'', status),
                                   (''user_email'', JStr ''ann@example.com'')])])]"

section \<open>Containment up to case, in the words of the specification\<close>

text \<open>
  The specification types a purchase by whether the product name "(case-insensitive)
  contains the substring" \<^verbatim>\<open>yearly\<close>. Read by itself, with no lower-casing: two
  characters are the same letter when they are equal, or one is a capital among
  \<^verbatim>\<open>A-Z\<close> and the other is 32 places after it, its small letter; \<open>s\<close> contains \<open>t\<close> up to case when at
  some position of \<open>s\<close> the next \<open>length t\<close> characters are letter for letter those of
  \<open>t\<close>.
\<close>

definition capital :: "char \<Rightarrow> bool" where
  "capital c = (let n = (of_char c :: nat) in 65 \<le> n \<and> n \<le> 90)"

definition same_letter :: "char \<Rightarrow> char \<Rightarrow> bool" where
  "same_letter c d =
     (c = d \<or> (capital c \<and> (of_char d :: nat) = of_char c + 32)
            \<or> (capital d \<and> (of_char c :: nat) = of_char d + 32))"

definition contains_ignoring_case :: "string \<Rightarrow> string \<Rightarrow> bool" where
  "contains_ignoring_case s t =
     (\<exists>i \<in> {..length s}. list_all2 same_letter (take (length t) (drop i s)) t)"

section \<open>Facts about the digest\<close>

text \<open>
  The digest is 64 characters, all of them ASCII, and decoding it from hexadecimal gives
  back the 32 bytes of the HMAC.
\<close>

lemma length_hex [simp]: "length (hex bs) = 2 * length bs"
  by (induction bs) (simp_all add: hex_def)

lemma length_state_bytes [simp]: "length (state_bytes hs) = 32"
  by (cases hs) (auto simp: be_bytes_def)

lemma length_sha256 [simp]: "length (sha256 m) = 32"
  by (simp add: sha256_def Let_def)

lemma length_hmac_sha256 [simp]: "length (hmac_sha256 key msg) = 32"
  by (simp add: hmac_sha256_def Let_def)

lemma length_hmac_hex [simp]: "length (hmac_hex secret msg) = 64"
  by (simp add: hmac_hex_def)

text \<open>The first test vector of FIPS 180-4, computed by the definitions above.\<close>

lemma sha256_abc:
  "hex (sha256 (bytes_of ''abc''))
     = ''ba7816bf8f01cfea414140de5dae2223b00361a396177a9cb410ff61f20015ad''"
  by code_simp

lemma hmac_hex_nonempty [simp]: "hmac_hex sk b \<noteq> []" "[] \<noteq> hmac_hex sk b"
  by (auto dest: arg_cong [where f = length])

lemma absent_digest [simp]: "\<not> absent (Some (hmac_hex sk b))"
  by simp

lemma unat_of_char: "unat (of_char c :: byte) = of_char c"
proof -
  have "(of_char c :: byte) = of_nat (of_char c)"
    by (simp add: of_nat_of_char)
  then have "unat (of_char c :: byte) = (of_char c :: nat) mod 2 ^ 8"
    by (simp add: unat_of_nat)
  then show ?thesis by simp
qed

lemma bytes_of_eq_iff [simp]: "bytes_of a = bytes_of b \<longleftrightarrow> a = b"
proof
  assume "bytes_of a = bytes_of b"
  then have "map unat (bytes_of a) = map unat (bytes_of b)" by simp
  then have "map (of_char :: char \<Rightarrow> nat) a = map of_char b"
    by (simp add: bytes_of_def unat_of_char comp_def)
  then show "a = b"
    by (simp add: inj_map_eq_map inj_of_char)
qed simp

lemma length_bytes_of [simp]: "length (bytes_of s) = length s"
  by (simp add: bytes_of_def)

lemma hex_value_hex_digit: "n < 16 \<Longrightarrow> hex_value (hex_digit n) = Some n"
  by (auto simp: hex_value_def hex_digit_def Let_def)

lemma hex_decode_hex [simp]: "hex_decode (hex bs) = bs"
proof (induction bs)
  case Nil
  then show ?case by (simp add: hex_def)
next
  case (Cons b bs)
  have "unat b < 256" using unsigned_less [of b, where ?'a = nat] by simp
  then have "unat b div 16 < 16" by simp
  then show ?case
    using Cons by (simp add: hex_def hex_value_hex_digit)
qed

lemma hex_digit_ascii: "n < 16 \<Longrightarrow> (of_char (hex_digit n) :: nat) < 128"
  by (auto simp: hex_digit_def)

lemma hex_ascii: "c \<in> set (hex bs) \<Longrightarrow> (of_char c :: nat) < 128"
proof (induction bs)
  case Nil
  then show ?case by (simp add: hex_def)
next
  case (Cons b bs)
  have "unat b < 256" using unsigned_less [of b, where ?'a = nat] by simp
  then have "unat b div 16 < 16" "unat b mod 16 < 16" by simp_all
  then show ?case
    using Cons by (auto simp: hex_def hex_digit_ascii)
qed

lemma header_text_ascii: "\<forall>c \<in> set s. (of_char c :: nat) < 128 \<Longrightarrow> header_text s = s"
  by (induction s) (simp_all add: header_text_def)

lemma length_mutated:
  assumes "length d = 64" and "\<forall>c \<in> set d. (of_char c :: nat) < 128"
  shows "length (header_text (mutate_bit 0 7 d)) = 65"
proof -
  obtain c r where d: "d = c # r" using assms(1) by (cases d) auto
  have c: "(of_char c :: nat) < 128" and r: "\<forall>c \<in> set r. (of_char c :: nat) < 128"
    using assms(2) d by auto
  have "flip 7 (of_char c) = of_char c + 128"
    using c by (simp add: flip_def)
  then have "\<not> (of_char (char_of (flip 7 (of_char c) :: nat)) :: nat) < 128"
    using c by simp
  then have "length (header_text (mutate_bit 0 7 d)) = 2 + length (header_text r)"
    using d by (simp add: mutate_bit_def header_text_def Let_def)
  then show ?thesis
    using header_text_ascii [OF r] assms(1) d by simp
qed

section \<open>What the three verifications compute\<close>

lemma verifySignature_B_iff:
  "verifySignature_B (Some b) (Some sg) (Some sk) = (sk \<noteq> [] \<and> sg = hmac_hex sk b)"
  by (auto simp: timingSafeEqual_def)

lemma verifySignature_C_eq:
  "verifySignature_C (Some p) (Some sg) (Some sk) =
     (if length sg = 64 then Inr (sg = hmac_hex sk p) else Inl RangeError)"
  by (simp add: timingSafeEqual_def)

lemma verify_A_eq:
  "verify_A raw sg sk =
     (if length (hex_decode sg) = 32
      then Inr (hex_decode sg = hmac_sha256 (bytes_of sk) (bytes_of raw))
      else Inl RangeError)"
  by (simp add: verify_A_def timingSafeEqual_def hmac_hex_def)

text \<open>
  Version B's \<^verbatim>\<open>verifySignature\<close> accepts the digest of the body under a secret that is
  not empty and returns false on every other signature, whatever its length. Version C's
  accepts the digest and returns false on another signature of the same length.
\<close>

lemma verifySignature_B_genuine:
  "sk \<noteq> [] \<Longrightarrow> verifySignature_B (Some b) (Some (hmac_hex sk b)) (Some sk)"
  by (auto simp: timingSafeEqual_def)

lemma verifySignature_B_rejects:
  "sg \<noteq> hmac_hex sk b \<Longrightarrow> \<not> verifySignature_B (Some b) (Some sg) (Some sk)"
  by (auto simp: timingSafeEqual_def)

lemma verifySignature_C_genuine:
  "verifySignature_C (Some b) (Some (hmac_hex sk b)) (Some sk) = Inr True"
  by (simp add: timingSafeEqual_def)

lemma verifySignature_C_same_length:
  "length sg = 64 \<Longrightarrow> sg \<noteq> hmac_hex sk b \<Longrightarrow>
     verifySignature_C (Some b) (Some sg) (Some sk) = Inr False"
  by (simp add: timingSafeEqual_def)

section \<open>The substring test\<close>

text \<open>
  \<open>str_includes s t\<close> holds exactly when \<open>t\<close> occurs in \<open>s\<close>.
\<close>

lemma starts_with_iff: "starts_with s t \<longleftrightarrow> (\<exists>q. s = t @ q)"
  unfolding starts_with_def
  by (metis append_eq_conv_conj append_take_drop_id)

lemma str_includes_iff: "str_includes s t \<longleftrightarrow> (\<exists>p q. s = p @ t @ q)"
proof (induction s)
  case Nil
  then show ?case by auto
next
  case (Cons c s)
  show ?case
  proof
    assume "str_includes (c # s) t"
    then consider "starts_with (c # s) t" | "str_includes s t" by auto
    then show "\<exists>p q. c # s = p @ t @ q"
    proof cases
      case 1
      then obtain q where "c # s = t @ q" by (auto simp: starts_with_iff)
      then have "c # s = [] @ t @ q" by simp
      then show ?thesis by blast
    next
      case 2
      then obtain p q where "s = p @ t @ q" using Cons.IH by auto
      then have "c # s = (c # p) @ t @ q" by simp
      then show ?thesis by blast
    qed
  next
    assume "\<exists>p q. c # s = p @ t @ q"
    then obtain p q where pq: "c # s = p @ t @ q" by blast
    show "str_includes (c # s) t"
    proof (cases p)
      case Nil
      with pq have "starts_with (c # s) t" unfolding starts_with_iff by auto
      then show ?thesis by simp
    next
      case (Cons a p')
      then have "s = p' @ t @ q" using pq by simp
      then show ?thesis using Cons.IH by auto
    qed
  qed
qed

text \<open>
  For a \<open>t\<close> written in small letters, \<open>s\<close> contains \<open>t\<close> up to case exactly when
  \<^verbatim>\<open>s.toLowerCase().includes(t)\<close>.
\<close>

lemma same_letter_small:
  assumes "97 \<le> (of_char d :: nat)" and "(of_char d :: nat) \<le> 122"
  shows "same_letter c d \<longleftrightarrow> lower_char c = d"
proof (cases "capital c")
  case True
  then have b: "65 \<le> (of_char c :: nat)" "(of_char c :: nat) \<le> 90"
    by (simp_all add: capital_def Let_def)
  then have l: "lower_char c = char_of ((of_char c :: nat) + 32)"
    by (simp add: lower_char_def Let_def)
  have n: "c \<noteq> d" "\<not> capital d"
    using b assms by (auto simp: capital_def Let_def)
  have "char_of ((of_char c :: nat) + 32) = d \<longleftrightarrow> (of_char d :: nat) = of_char c + 32"
  proof
    assume "char_of ((of_char c :: nat) + 32) = d"
    then have "(of_char d :: nat) = (of_char c + 32) mod 256"
      by (metis of_char_of)
    then show "(of_char d :: nat) = of_char c + 32"
      using b by simp
  next
    assume "(of_char d :: nat) = of_char c + 32"
    then show "char_of ((of_char c :: nat) + 32) = d"
      by (metis char_of_char)
  qed
  then show ?thesis
    using True n by (simp add: same_letter_def l)
next
  case False
  then have l: "lower_char c = c"
    by (auto simp: lower_char_def capital_def Let_def)
  have "\<not> capital d"
    using assms by (simp add: capital_def Let_def)
  then show ?thesis
    using False by (auto simp: same_letter_def l)
qed

lemma same_letters_small:
  assumes "\<forall>d \<in> set t. 97 \<le> (of_char d :: nat) \<and> (of_char d :: nat) \<le> 122"
  shows "list_all2 same_letter w t \<longleftrightarrow> map lower_char w = t"
  using assms
proof (induction t arbitrary: w)
  case Nil
  then show ?case by simp
next
  case (Cons d t)
  then show ?case
    by (cases w) (auto simp: same_letter_small)
qed

lemma contains_ignoring_case_iff:
  "contains_ignoring_case s t \<longleftrightarrow> (\<exists>p w q. s = p @ w @ q \<and> list_all2 same_letter w t)"
proof
  assume "contains_ignoring_case s t"
  then obtain i where i: "i \<le> length s" "list_all2 same_letter (take (length t) (drop i s)) t"
    by (auto simp: contains_ignoring_case_def)
  have "s = take i s @ take (length t) (drop i s) @ drop (length t) (drop i s)"
    by (simp only: append_take_drop_id)
  with i(2) show "\<exists>p w q. s = p @ w @ q \<and> list_all2 same_letter w t"
    by blast
next
  assume "\<exists>p w q. s = p @ w @ q \<and> list_all2 same_letter w t"
  then obtain p w q where s: "s = p @ w @ q" and w: "list_all2 same_letter w t"
    by blast
  have "length w = length t" using w by (rule list_all2_lengthD)
  then have "take (length t) (drop (length p) s) = w"
    using s by simp
  moreover have "length p \<le> length s" using s by simp
  ultimately show "contains_ignoring_case s t"
    using w unfolding contains_ignoring_case_def by blast
qed

lemma contains_small:
  assumes "\<forall>d \<in> set t. 97 \<le> (of_char d :: nat) \<and> (of_char d :: nat) \<le> 122"
  shows "contains_ignoring_case s t \<longleftrightarrow> str_includes (toLowerCase s) t"
proof -
  have "(\<exists>p w q. s = p @ w @ q \<and> map lower_char w = t)
          \<longleftrightarrow> (\<exists>p' q'. map lower_char s = p' @ t @ q')"
  proof
    assume "\<exists>p w q. s = p @ w @ q \<and> map lower_char w = t"
    then obtain p w q where "s = p @ w @ q" "map lower_char w = t" by blast
    then have "map lower_char s = map lower_char p @ t @ map lower_char q" by simp
    then show "\<exists>p' q'. map lower_char s = p' @ t @ q'" by blast
  next
    assume "\<exists>p' q'. map lower_char s = p' @ t @ q'"
    then obtain p' q' where "map lower_char s = p' @ t @ q'" by blast
    then have "\<exists>p r. s = p @ r \<and> p' = map lower_char p \<and> t @ q' = map lower_char r"
      by (simp only: map_eq_append_conv)
    then obtain p r where a: "s = p @ r" "map lower_char r = t @ q'"
      by metis
    from a(2) have "\<exists>w q. r = w @ q \<and> t = map lower_char w \<and> q' = map lower_char q"
      by (simp only: map_eq_append_conv)
    then obtain w q where "r = w @ q" "map lower_char w = t"
      by metis
    with a show "\<exists>p w q. s = p @ w @ q \<and> map lower_char w = t" by blast
  qed
  then show ?thesis
    by (simp add: contains_ignoring_case_iff same_letters_small [OF assms] str_includes_iff
        toLowerCase_def)
qed

lemma contains_yearly:
  "contains_ignoring_case s ''yearly'' \<longleftrightarrow> str_includes (toLowerCase s) ''yearly''"
  by (rule contains_small) simp


section \<open>Property access\<close>

lemma opt_prop_Some_obj:
  assumes "opt_prop x p = Some v"
  obtains kvs where "x = Some (JObj kvs)" "map_of kvs p = Some v"
  using assms by (cases "(x, p)" rule: get_prop.cases) (auto simp: opt_prop_def)

lemma get_prop_Inl:
  "get_prop x p = Inl e \<longleftrightarrow> (x = None \<or> x = Some JNull) \<and> e = TypeError"
  by (cases "(x, p)" rule: get_prop.cases) auto

section \<open>Merging into a record\<close>

lemma resolved_None:
  "map_of (map (\<lambda>fv. (fst fv, resolve now (snd fv))) data) f = None \<longleftrightarrow> f \<notin> fst ` set data"
  by (induction data) auto

lemma merge_doc_other:
  assumes "f \<notin> fst ` set data"
  shows "merge_doc now old data f = (case old of None \<Rightarrow> None | Some d \<Rightarrow> d f)"
proof -
  have "map_of (map (\<lambda>fv. (fst fv, resolve now (snd fv))) data) f = None"
    using assms by (simp add: resolved_None)
  then show ?thesis
    by (simp add: merge_doc_def map_add_def split: option.splits)
qed

lemma set_merge_frame:
  "f \<notin> fst ` set data \<Longrightarrow> field_of (snd (set_merge ok now key data db)) k f = field_of db k f"
  by (simp add: set_merge_def field_of_def merge_doc_other)

lemma merge_doc_twice:
  "merge_doc t2 (Some (merge_doc t1 old data)) data = merge_doc t2 old data"
proof (rule ext)
  fix f
  show "merge_doc t2 (Some (merge_doc t1 old data)) data f = merge_doc t2 old data f"
  proof (cases "f \<in> fst ` set data")
    case True
    then obtain v where "map_of (map (\<lambda>fv. (fst fv, resolve t2 (snd fv))) data) f = Some v"
      using resolved_None [of t2 data f] by auto
    then show ?thesis by (simp add: merge_doc_def map_add_def)
  next
    case False
    then show ?thesis by (simp add: merge_doc_other)
  qed
qed

lemma set_merge_twice_docs:
  "docs (snd (set_merge True t2 key data (snd (set_merge ok1 t1 key data db))))
     = docs (snd (set_merge True t2 key data db))"
  by (simp add: set_merge_def merge_doc_twice)

lemma merge_doc_order_fields:
  "merge_doc now old (order_fields email t oid pn) =
     (case old of None \<Rightarrow> Map.empty | Some d \<Rightarrow> d)
       ++ [''email'' \<mapsto> Plain email,
           ''subscription'' \<mapsto> Plain (Some (JStr ''premium'')),
           ''subscriptionType'' \<mapsto> Plain (Some (JStr t)),
           ''purchaseDate'' \<mapsto> Timestamp now,
           ''lemonSqueezyOrderId'' \<mapsto> Plain oid,
           ''productName'' \<mapsto> Plain pn]"
  by (rule ext) (simp add: merge_doc_def order_fields_def map_add_def)

lemma merge_doc_updated_fields:
  "merge_doc now old (updated_fields email status) =
     (case old of None \<Rightarrow> Map.empty | Some d \<Rightarrow> d)
       ++ [''email'' \<mapsto> Plain email,
           ''subscription'' \<mapsto> Plain (Some (JStr (plan_of_status status))),
           ''subscriptionStatus'' \<mapsto> Plain status,
           ''lastUpdated'' \<mapsto> Timestamp now]"
  by (rule ext) (simp add: merge_doc_def updated_fields_def map_add_def)

lemma set_merge_twice_fields:
  assumes "f \<noteq> ''purchaseDate''"
  shows "field_of (snd (set_merge ok2 t2 key (order_fields key t oid pn)
                     (snd (set_merge True t1 key (order_fields key t oid pn) db)))) k f
           = field_of (snd (set_merge True t1 key (order_fields key t oid pn) db)) k f"
  using assms
  by (simp add: set_merge_def field_of_def merge_doc_order_fields map_add_def)

section \<open>What a log can throw\<close>

text \<open>A conversion throws nothing but a TypeError, and none on a value that is not an
  object or an array.\<close>

lemma text_errors:
  "json_text v = Inl e \<Longrightarrow> e = TypeError"
  "element_texts vs = Inl e \<Longrightarrow> e = TypeError"
  by (induction v and vs rule: json_text_element_texts.induct)
     (auto split: sum.splits if_splits)

lemma ToString_TypeError: "ToString v = Inl e \<Longrightarrow> e = TypeError"
  by (cases v) (auto dest: text_errors)

lemma console_log_TypeError: "console_log vs = Inl e \<Longrightarrow> e = TypeError"
  by (induction vs) (auto split: sum.splits dest: ToString_TypeError)

lemma ToString_scalar:
  assumes "\<forall>kvs. v \<noteq> Some (JObj kvs)" and "\<forall>vs. v \<noteq> Some (JArr vs)"
  shows "\<exists>t. ToString v = Inr t"
  using assms by (cases v rule: truthy.cases) auto

lemma then_log_snd [simp]: "snd (then_log r vs) = snd r"
  by (simp add: then_log_def split: prod.splits sum.splits)

lemma then_log_texts: "console_log vs = Inr () \<Longrightarrow> then_log r vs = r"
  by (cases r) (auto simp: then_log_def split: sum.splits)

section \<open>Requests that pass verification\<close>

text \<open>
  A POST whose signature is the digest of \<^verbatim>\<open>JSON.stringify(req.body)\<close> under a secret
  that is not empty reaches the projection in versions B and C.
\<close>

lemma C_verified:
  assumes "http_method req = ''POST''" and "body req = Some ev"
    and "x_signature req = Some (hmac_hex sk (JSON_stringify ev))" and "sk \<noteq> []"
  shows "handler_C (Some sk) ok now req db =
           (case project_C ok now (Some ev) db of
              (Inl e, db') \<Rightarrow> ((500, Error ''Internal server error''), db')
            | (Inr r, db') \<Rightarrow> (r, db'))"
  using assms
  by (simp add: handler_C_def try_C_def rawBody_BC_def stringify_def timingSafeEqual_def)

lemma B_verified:
  assumes "http_method req = ''POST''" and "body req = Some ev"
    and "x_signature req = Some (hmac_hex sk (JSON_stringify ev))" and "sk \<noteq> []"
  shows "handler_B (Some sk) ok now req db =
           (case project_B ok now (Some ev) db of
              (Inl e, db') \<Rightarrow> ((500, ErrorDetails ''Internal server error'' e), db')
            | (Inr r, db') \<Rightarrow> (r, db'))"
  using assms
  by (simp add: handler_B_def try_B_def rawBody_BC_def stringify_def timingSafeEqual_def)

text \<open>
  In version C a POST with no signature, or with a signature that is not the digest of
  the signed bytes, changes nothing in the store and is answered 401 or 500. In version
  B a signature that is there and wrong is answered 401.
\<close>

lemma version_C_requires_signature:
  assumes "http_method req = ''POST''"
    and "absent (x_signature req)
         \<or> (\<forall>b. rawBody_BC req = Some b \<longrightarrow> x_signature req \<noteq> Some (hmac_hex sk b))"
  shows "snd (handler_C (Some sk) ok now req db) = db"
    and "fst (fst (handler_C (Some sk) ok now req db)) \<in> {401, 500}"
proof -
  have "try_C (Some sk) ok now req db = (Inr (401, Error ''Unauthorized''), db)
      \<or> try_C (Some sk) ok now req db = (Inr (401, Error ''Invalid signature''), db)
      \<or> (\<exists>e. try_C (Some sk) ok now req db = (Inl e, db))"
  proof (cases "absent (x_signature req) \<or> absent (Some sk)")
    case True
    then show ?thesis by (simp add: try_C_def)
  next
    case False
    then obtain sg where sg: "x_signature req = Some sg" "sg \<noteq> []" "sk \<noteq> []"
      by (cases "x_signature req") auto
    show ?thesis
    proof (cases "rawBody_BC req")
      case None
      then show ?thesis using sg by (simp add: try_C_def)
    next
      case (Some b)
      then have "sg \<noteq> hmac_hex sk b" using assms(2) sg by auto
      then show ?thesis
        using sg Some by (simp add: try_C_def timingSafeEqual_def)
    qed
  qed
  then show "snd (handler_C (Some sk) ok now req db) = db"
    and "fst (fst (handler_C (Some sk) ok now req db)) \<in> {401, 500}"
    using assms(1) by (auto simp: handler_C_def)
qed

lemma version_B_rejects_wrong_signature:
  assumes "http_method req = ''POST''" and "x_signature req = Some sg" and "sg \<noteq> []"
    and "sk \<noteq> []" and "\<forall>b. rawBody_BC req = Some b \<longrightarrow> sg \<noteq> hmac_hex sk b"
  shows "handler_B (Some sk) ok now req db = ((401, Error ''Invalid signature''), db)"
proof -
  have "\<not> verifySignature_B (rawBody_BC req) (Some sg) (Some sk)"
    using assms(5) by (cases "rawBody_BC req") (auto simp: timingSafeEqual_def)
  then show ?thesis
    using assms(1-4) by (simp add: handler_B_def try_B_def)
qed

section \<open>What the projection does\<close>

text \<open>\<^verbatim>\<open>x || ''\<close> on a product name that is text, absent or falsy.\<close>

lemma named_or_empty:
  assumes "product = Some (JStr name)
           \<or> (name = [] \<and> (product = None \<or> product = Some JNull
                              \<or> product = Some (JBool False) \<or> product = Some (JNum ''0'')))"
  shows "or_empty product = Some (JStr name)"
  using assms by (auto simp: or_empty_def)

lemma project_paid_order:
  assumes "get_prop (Some ev) ''meta'' = Inr meta"
    and "opt_prop meta ''event_name'' = Some (JStr ''order_created'')"
    and "get_prop (Some ev) ''data'' = Inr data"
    and "opt_prop data ''attributes'' = attributes"
    and "opt_prop attributes ''status'' = Some (JStr ''paid'')"
    and "opt_prop attributes ''user_email'' = Some (JStr email)"
    and "or_empty (opt_prop (opt_prop attributes ''first_order_item'') ''product_name'')
           = Some (JStr name)"
  shows "project_B ok now (Some ev) db =
           (case set_merge ok now (Some (JStr email))
                   (order_fields (Some (JStr email)) (type_of_name name) (opt_prop data ''id'')
                      (Some (JStr name))) db of
              (Inl e, db') \<Rightarrow> (Inl e, db')
            | (Inr u, db') \<Rightarrow> (Inr (200, Received), db'))"
    and "project_C ok now (Some ev) db =
           (case set_merge ok now (Some (JStr email))
                   (order_fields (Some (JStr email)) (type_of_name name) (opt_prop data ''id'')
                      (Some (JStr name))) db of
              (Inl e, db') \<Rightarrow> (Inl e, db')
            | (Inr u, db') \<Rightarrow> (Inr (200, Received), db'))"
proof -
  obtain kvs where a: "attributes = Some (JObj kvs)"
    using assms(5) by (auto elim: opt_prop_Some_obj)
  show "project_B ok now (Some ev) db =
           (case set_merge ok now (Some (JStr email))
                   (order_fields (Some (JStr email)) (type_of_name name) (opt_prop data ''id'')
                      (Some (JStr name))) db of
              (Inl e, db') \<Rightarrow> (Inl e, db')
            | (Inr u, db') \<Rightarrow> (Inr (200, Received), db'))"
    using assms a
    by (simp add: project_B_def is_paid_order_def order_created_def opt_prop_def Let_def
        then_log_texts)
  show "project_C ok now (Some ev) db =
           (case set_merge ok now (Some (JStr email))
                   (order_fields (Some (JStr email)) (type_of_name name) (opt_prop data ''id'')
                      (Some (JStr name))) db of
              (Inl e, db') \<Rightarrow> (Inl e, db')
            | (Inr u, db') \<Rightarrow> (Inr (200, Received), db'))"
    using assms a
    by (simp add: project_C_def is_paid_order_def order_created_def opt_prop_def Let_def
        then_log_texts)
qed

lemma project_updated:
  assumes "get_prop (Some ev) ''meta'' = Inr meta"
    and "opt_prop meta ''event_name'' = Some (JStr ''subscription_updated'')"
    and "get_prop (Some ev) ''data'' = Inr data"
    and "opt_prop data ''attributes'' = attributes"
    and "opt_prop attributes ''user_email'' = Some (JStr email)"
    and "opt_prop attributes ''status'' = status"
    and "\<forall>kvs. status \<noteq> Some (JObj kvs)" and "\<forall>vs. status \<noteq> Some (JArr vs)"
  shows "project_B ok now (Some ev) db =
           (case set_merge ok now (Some (JStr email))
                   (updated_fields (Some (JStr email)) status) db of
              (Inl e, db') \<Rightarrow> (Inl e, db')
            | (Inr u, db') \<Rightarrow> (Inr (200, Received), db'))"
    and "project_C ok now (Some ev) db =
           (case set_merge ok now (Some (JStr email))
                   (updated_fields (Some (JStr email)) status) db of
              (Inl e, db') \<Rightarrow> (Inl e, db')
            | (Inr u, db') \<Rightarrow> (Inr (200, Received), db'))"
proof -
  obtain kvs where a: "attributes = Some (JObj kvs)"
    using assms(5) by (auto elim: opt_prop_Some_obj)
  have g: "get_prop attributes ''user_email'' = Inr (Some (JStr email))"
    "get_prop attributes ''status'' = Inr status"
    using assms(5,6) a by (simp_all add: opt_prop_def)
  obtain t where "ToString status = Inr t"
    using ToString_scalar [OF assms(7,8)] by blast
  then have l: "console_log [Some (JStr email), status] = Inr ()"
    by simp
  show "project_B ok now (Some ev) db =
           (case set_merge ok now (Some (JStr email))
                   (updated_fields (Some (JStr email)) status) db of
              (Inl e, db') \<Rightarrow> (Inl e, db')
            | (Inr u, db') \<Rightarrow> (Inr (200, Received), db'))"
    using assms(1-4) g l
    by (simp add: project_B_def is_paid_order_def subscription_updated_B_def then_log_texts)
  show "project_C ok now (Some ev) db =
           (case set_merge ok now (Some (JStr email))
                   (updated_fields (Some (JStr email)) status) db of
              (Inl e, db') \<Rightarrow> (Inl e, db')
            | (Inr u, db') \<Rightarrow> (Inr (200, Received), db'))"
    using assms(1-4) g l
    by (simp add: project_C_def is_paid_order_def subscription_updated_C_def then_log_texts)
qed

lemma project_no_attributes:
  assumes "get_prop (Some ev) ''meta'' = Inr meta"
    and "opt_prop meta ''event_name'' = Some (JStr n)"
    and "get_prop (Some ev) ''data'' = Inr data"
    and "get_prop (opt_prop data ''attributes'') ''user_email'' = Inl TypeError"
  shows "project_B ok now (Some ev) db =
           (if n = ''subscription_created'' \<or> n = ''subscription_updated''
            then (Inl TypeError, db) else (Inr (200, Received), db))"
    and "project_C ok now (Some ev) db =
           (if n = ''subscription_created'' \<or> n = ''subscription_updated''
            then (Inl TypeError, db) else (Inr (200, Received), db))"
proof -
  from assms(4) have "opt_prop data ''attributes'' = None \<or> opt_prop data ''attributes'' = Some JNull"
    by (simp add: get_prop_Inl)
  then have s: "opt_prop (opt_prop data ''attributes'') ''status'' = None"
    by (auto simp: opt_prop_def)
  show "project_B ok now (Some ev) db =
           (if n = ''subscription_created'' \<or> n = ''subscription_updated''
            then (Inl TypeError, db) else (Inr (200, Received), db))"
    using assms s
    by (simp add: project_B_def is_paid_order_def Let_def subscription_created_B_def
        subscription_updated_B_def unhandled_def)
  show "project_C ok now (Some ev) db =
           (if n = ''subscription_created'' \<or> n = ''subscription_updated''
            then (Inl TypeError, db) else (Inr (200, Received), db))"
    using assms s
    by (simp add: project_C_def is_paid_order_def Let_def subscription_created_C_def
        subscription_updated_C_def unhandled_def)
qed

text \<open>
  An event name that is an object with a key \<^verbatim>\<open>toString\<close> stops every version at its
  first log.
\<close>

lemma unprintable_event_name:
  assumes "get_prop event ''meta'' = Inr meta" and "get_prop event ''data'' = Inr data"
    and "opt_prop meta ''event_name'' = Some (JObj kvs)" and "map_of kvs ''toString'' = Some v"
  shows "project_A ok now event db = (Inl TypeError, db)"
    and "project_B ok now event db = (Inl TypeError, db)"
    and "project_C ok now event db = (Inl TypeError, db)"
  using assms by (simp_all add: project_A_def project_B_def project_C_def)

text \<open>
  The store the \<^verbatim>\<open>order_created\<close> branch returns is the store it was given, or the one
  a write returns, whatever a later log does; which of the two, and what is written under
  which key, depends on the event only.
\<close>

lemma order_created_shape:
  "(\<forall>ok now db. snd (order_created ok now event attrs db) = db)
   \<or> (\<exists>key t oid pn. \<forall>ok now db.
         snd (order_created ok now event attrs db)
           = snd (set_merge ok now key (order_fields key t oid pn) db))"
proof (cases "\<exists>email item data t.
                get_prop attrs ''user_email'' = Inr email
              \<and> get_prop attrs ''first_order_item'' = Inr item
              \<and> get_prop event ''data'' = Inr data
              \<and> console_log [email] = Inr ()
              \<and> console_log [or_empty (opt_prop item ''product_name'')] = Inr ()
              \<and> subscription_type (or_empty (opt_prop item ''product_name'')) = Inr t")
  case True
  then obtain email item data t where
    "get_prop attrs ''user_email'' = Inr email"
    "get_prop attrs ''first_order_item'' = Inr item"
    "get_prop event ''data'' = Inr data"
    "console_log [email] = Inr ()"
    "console_log [or_empty (opt_prop item ''product_name'')] = Inr ()"
    "subscription_type (or_empty (opt_prop item ''product_name'')) = Inr t"
    by blast
  then have "\<forall>ok now db. snd (order_created ok now event attrs db) =
      snd (set_merge ok now email
            (order_fields email t (opt_prop data ''id'') (or_empty (opt_prop item ''product_name''))) db)"
    by (simp add: order_created_def Let_def)
  then show ?thesis by blast
next
  case False
  then have "\<forall>ok now db. snd (order_created ok now event attrs db) = db"
    by (auto simp: order_created_def Let_def split: sum.splits)
  then show ?thesis by blast
qed

lemma order_created_A_shape:
  "(\<forall>ok now db. snd (order_created_A ok now event attrs db) = db)
   \<or> (\<exists>key t oid pn. \<forall>ok now db.
         snd (order_created_A ok now event attrs db)
           = snd (set_merge ok now key (order_fields key t oid pn) db))"
proof (cases "\<exists>email item data t.
                get_prop attrs ''user_email'' = Inr email
              \<and> get_prop attrs ''first_order_item'' = Inr item
              \<and> get_prop event ''data'' = Inr data
              \<and> subscription_type (or_empty (opt_prop item ''product_name'')) = Inr t")
  case True
  then obtain email item data t where
    "get_prop attrs ''user_email'' = Inr email"
    "get_prop attrs ''first_order_item'' = Inr item"
    "get_prop event ''data'' = Inr data"
    "subscription_type (or_empty (opt_prop item ''product_name'')) = Inr t"
    by blast
  then have "\<forall>ok now db. snd (order_created_A ok now event attrs db) =
      snd (set_merge ok now email
            (order_fields email t (opt_prop data ''id'') (or_empty (opt_prop item ''product_name''))) db)"
    by (simp add: order_created_A_def Let_def)
  then show ?thesis by blast
next
  case False
  then have "\<forall>ok now db. snd (order_created_A ok now event attrs db) = db"
    by (auto simp: order_created_A_def Let_def split: sum.splits)
  then show ?thesis by blast
qed

text \<open>A product name that is neither text, nor absent, nor falsy makes the branch throw
  before it writes: at the log of the name, or at \<^verbatim>\<open>toLowerCase\<close>.\<close>

lemma order_created_name_not_text:
  assumes "get_prop attributes ''user_email'' = Inr email"
    and "get_prop attributes ''first_order_item'' = Inr item"
    and "get_prop event ''data'' = Inr data"
    and "or_empty (opt_prop item ''product_name'') = v"
    and "\<forall>name. v \<noteq> Some (JStr name)"
  shows "order_created ok now event attributes db = (Inl TypeError, db)"
    and "order_created_A ok now event attributes db = (Inl TypeError, db)"
proof -
  have t: "subscription_type v = Inl TypeError"
    using assms(5) by (cases v rule: subscription_type.cases) auto
  show "order_created ok now event attributes db = (Inl TypeError, db)"
    using assms(1-4) t
    by (auto simp: order_created_def Let_def split: sum.splits dest: ToString_TypeError)
  show "order_created_A ok now event attributes db = (Inl TypeError, db)"
    using assms(1-4) t by (simp add: order_created_A_def Let_def)
qed

lemma order_created_twice_docs:
  "docs (snd (order_created True t2 event attrs (snd (order_created ok1 t1 event attrs db))))
     = docs (snd (order_created True t2 event attrs db))"
  "docs (snd (order_created_A True t2 event attrs (snd (order_created_A ok1 t1 event attrs db))))
     = docs (snd (order_created_A True t2 event attrs db))"
  using order_created_shape [of event attrs] order_created_A_shape [of event attrs]
  by (auto simp: set_merge_twice_docs)

lemma order_created_twice_fields:
  assumes "f \<noteq> ''purchaseDate''"
  shows "field_of (snd (order_created ok2 t2 event attrs (snd (order_created True t1 event attrs db)))) k f
           = field_of (snd (order_created True t1 event attrs db)) k f"
    and "field_of (snd (order_created_A ok2 t2 event attrs (snd (order_created_A True t1 event attrs db)))) k f
           = field_of (snd (order_created_A True t1 event attrs db)) k f"
  using order_created_shape [of event attrs] order_created_A_shape [of event attrs]
  by (auto simp: set_merge_twice_fields [OF assms])

lemma project_A_snd:
  "snd (project_A ok now event db) =
     (case get_prop event ''meta'' of
        Inl e \<Rightarrow> db
      | Inr meta \<Rightarrow>
          (case get_prop event ''data'' of
             Inl e \<Rightarrow> db
           | Inr data \<Rightarrow>
               if console_log [opt_prop meta ''event_name''] = Inr ()
                  \<and> is_paid_order (opt_prop meta ''event_name'') (opt_prop data ''attributes'')
               then snd (order_created_A ok now event (opt_prop data ''attributes'') db)
               else db))"
  by (simp add: project_A_def Let_def split: sum.splits prod.splits)

lemma project_order_snd:
  assumes "get_prop event ''meta'' = Inr meta"
    and "opt_prop meta ''event_name'' = Some (JStr ''order_created'')"
  shows "snd (project_C ok now event db) =
     (case get_prop event ''data'' of
        Inl e \<Rightarrow> db
      | Inr data \<Rightarrow>
          if is_paid_order (opt_prop meta ''event_name'') (opt_prop data ''attributes'')
          then snd (order_created ok now event (opt_prop data ''attributes'') db)
          else db)"
  using assms by (simp add: project_C_def unhandled_def Let_def split: sum.splits prod.splits)

lemma subscription_updated_frame:
  assumes "f \<notin> {''email'', ''subscription'', ''subscriptionStatus'', ''lastUpdated''}"
  shows "field_of (snd (subscription_updated_B ok now attrs db)) k f = field_of db k f"
    and "field_of (snd (subscription_updated_C ok now attrs db)) k f = field_of db k f"
proof -
  have "f \<notin> fst ` set (updated_fields email status)" for email status
    using assms by (simp add: updated_fields_def)
  then show "field_of (snd (subscription_updated_B ok now attrs db)) k f = field_of db k f"
    and "field_of (snd (subscription_updated_C ok now attrs db)) k f = field_of db k f"
    by (simp_all add: subscription_updated_B_def subscription_updated_C_def set_merge_frame
        split: sum.splits)
qed

lemma project_updated_snd:
  assumes "get_prop event ''meta'' = Inr meta"
    and "opt_prop meta ''event_name'' = Some (JStr ''subscription_updated'')"
  shows "snd (project_B ok now event db) =
     (case get_prop event ''data'' of
        Inl e \<Rightarrow> db
      | Inr data \<Rightarrow> snd (subscription_updated_B ok now (opt_prop data ''attributes'') db))"
    and "snd (project_C ok now event db) =
     (case get_prop event ''data'' of
        Inl e \<Rightarrow> db
      | Inr data \<Rightarrow> snd (subscription_updated_C ok now (opt_prop data ''attributes'') db))"
  using assms
  by (simp_all add: project_B_def project_C_def is_paid_order_def Let_def
      split: sum.splits prod.splits)

lemma project_updated_frame:
  assumes "get_prop event ''meta'' = Inr meta"
    and "opt_prop meta ''event_name'' = Some (JStr ''subscription_updated'')"
    and "f \<notin> {''email'', ''subscription'', ''subscriptionStatus'', ''lastUpdated''}"
  shows "field_of (snd (project_B ok now event db)) k f = field_of db k f"
    and "field_of (snd (project_C ok now event db)) k f = field_of db k f"
  by (simp_all add: project_updated_snd [OF assms(1,2)] subscription_updated_frame [OF assms(3)]
      split: sum.splits)

text \<open>
  The store a handler returns is the store it was given, or the one the projection
  returns; which of the two depends on the request and the secret only.
\<close>

lemma handler_A_snd:
  "\<exists>b ev. \<forall>ok now db.
     snd (handler_A parse secret ok now req db) = (if b then snd (project_A ok now ev db) else db)"
proof (cases "http_method req = ''POST'' \<and> check_A secret req = Inr True
                \<and> parse (rawBody_A req) \<noteq> None")
  case True
  then obtain event where "parse (rawBody_A req) = Some event" by auto
  with True have "\<forall>ok now db. snd (handler_A parse secret ok now req db)
                    = snd (project_A ok now (Some event) db)"
    by (simp add: handler_A_def try_A_def split: prod.splits sum.splits)
  then show ?thesis by (intro exI [of _ True] exI [of _ "Some event"]) simp
next
  case False
  then have "\<forall>ok now db. snd (handler_A parse secret ok now req db) = db"
    by (auto simp: handler_A_def try_A_def split: prod.splits sum.splits option.splits)
  then show ?thesis by (intro exI [of _ False]) simp
qed

lemma handler_B_snd:
  "\<exists>b. \<forall>ok now db.
     snd (handler_B secret ok now req db) = (if b then snd (project_B ok now (body req) db) else db)"
proof (cases "http_method req = ''POST'' \<and> \<not> absent secret
                \<and> (absent (x_signature req)
                    \<or> verifySignature_B (rawBody_BC req) (x_signature req) secret)")
  case True
  then have "\<forall>ok now db. snd (handler_B secret ok now req db)
                    = snd (project_B ok now (body req) db)"
    by (auto simp: handler_B_def try_B_def split: prod.splits sum.splits)
  then show ?thesis by (intro exI [of _ True]) simp
next
  case False
  then have "\<forall>ok now db. snd (handler_B secret ok now req db) = db"
    by (auto simp: handler_B_def try_B_def split: prod.splits sum.splits)
  then show ?thesis by (intro exI [of _ False]) simp
qed

lemma handler_C_snd:
  "\<exists>b. \<forall>ok now db.
     snd (handler_C secret ok now req db) = (if b then snd (project_C ok now (body req) db) else db)"
proof (cases "http_method req = ''POST'' \<and> \<not> absent (x_signature req) \<and> \<not> absent secret
                \<and> verifySignature_C (rawBody_BC req) (x_signature req) secret = Inr True")
  case True
  then have "\<forall>ok now db. snd (handler_C secret ok now req db)
                    = snd (project_C ok now (body req) db)"
    by (simp add: handler_C_def try_C_def split: prod.splits sum.splits)
  then show ?thesis by (intro exI [of _ True]) simp
next
  case False
  then have "\<forall>ok now db. snd (handler_C secret ok now req db) = db"
    by (auto simp: handler_C_def try_C_def split: prod.splits sum.splits)
  then show ?thesis by (intro exI [of _ False]) simp
qed

section \<open>The examples\<close>

text \<open>
  \<open>order_text\<close> is a body as a provider may send it, with a space after each colon and
  comma; \<open>order_event\<close> is the value it parses to.
\<close>

lemma parse_order: "JSON_parse order_text = Some order_event"
  by (simp add: JSON_parse_def order_text_def order_event_def skip_ws_def is_ws_def starts_with_def
      read_number_def plain_keys_def is_digit_def unescape_def)

lemma stringify_order: "JSON_stringify order_event \<noteq> order_text"
  by (simp add: order_text_def order_event_def quote_def escape_char_def)

lemma yearly_plan: "type_of_name ''Pro Yearly Plan'' = ''yearly''"
  by (simp add: type_of_name_def toLowerCase_def lower_char_def starts_with_def char_of_eq_iff)

lemma lifetime_plan: "type_of_name ''Pro Lifetime Plan'' = ''lifetime''"
  by (simp add: type_of_name_def toLowerCase_def lower_char_def starts_with_def char_of_eq_iff)

lemma yearly_name: "contains_ignoring_case ''Pro Yearly Plan'' ''yearly''"
  unfolding contains_yearly
  by (simp add: toLowerCase_def lower_char_def starts_with_def char_of_eq_iff)

lemma lifetime_name: "\<not> contains_ignoring_case ''Pro Lifetime Plan'' ''yearly''"
  unfolding contains_yearly
  by (simp add: toLowerCase_def lower_char_def starts_with_def char_of_eq_iff)

lemma no_name: "\<not> contains_ignoring_case [] ''yearly''"
  unfolding contains_yearly by (simp add: toLowerCase_def)

lemma project_order_event:
  "project_B ok now (Some order_event) db =
     (case set_merge ok now ann
             (order_fields ann ''yearly'' (Some (JStr ''1001'')) (Some (JStr ''Pro Yearly Plan''))) db of
        (Inl e, db') \<Rightarrow> (Inl e, db')
      | (Inr u, db') \<Rightarrow> (Inr (200, Received), db'))"
  "project_C ok now (Some order_event) db =
     (case set_merge ok now ann
             (order_fields ann ''yearly'' (Some (JStr ''1001'')) (Some (JStr ''Pro Yearly Plan''))) db of
        (Inl e, db') \<Rightarrow> (Inl e, db')
      | (Inr u, db') \<Rightarrow> (Inr (200, Received), db'))"
  by (simp_all add: project_B_def project_C_def order_event_def is_paid_order_def opt_prop_def
      order_created_def or_empty_def yearly_plan ann_def then_log_texts)

lemma project_A_order_event:
  "project_A ok now (Some order_event) db =
     (case set_merge ok now ann
             (order_fields ann ''yearly'' (Some (JStr ''1001'')) (Some (JStr ''Pro Yearly Plan''))) db of
        (Inl e, db') \<Rightarrow> (Inl e, db')
      | (Inr u, db') \<Rightarrow> (Inr (200, Received), db'))"
  by (simp add: project_A_def order_event_def is_paid_order_def opt_prop_def order_created_A_def
      or_empty_def yearly_plan ann_def then_log_texts)

lemma set_merge_ann_paid:
  "set_merge True t ann
     (order_fields ann ''yearly'' (Some (JStr ''1001'')) (Some (JStr ''Pro Yearly Plan''))) empty_db
   = (Inr (), ann_paid t)"
  by (simp add: set_merge_def empty_db_def ann_paid_def merge_doc_order_fields)

lemma handler_C_order_event:
  "handler_C (Some ''whsec'') True t (signed_BC ''whsec'' order_event) db =
     ((200, Received),
      snd (set_merge True t ann
             (order_fields ann ''yearly'' (Some (JStr ''1001'')) (Some (JStr ''Pro Yearly Plan''))) db))"
  by (simp add: C_verified signed_BC_def post_def project_order_event set_merge_def)

text \<open>
  Version A with the secret unset: verification is skipped, whatever the signature, and
  the example order is written.
\<close>

lemma version_A_skips_without_secret:
  "handler_A JSON_parse None True 7 (post (Some ''abc'') order_text None) empty_db
     = ((200, Received), ann_paid 7)"
  by (simp add: handler_A_def try_A_def check_A_def post_def rawBody_A_def getRawBody_def
      parse_order project_A_order_event set_merge_ann_paid)

lemma rawBody_A_exact: "rawBody_A req = concat (map chunk_bytes (stream req))"
  by (simp add: rawBody_A_def getRawBody_def)

text \<open>
  A status that is an object with a key \<^verbatim>\<open>toString\<close>: version B throws at the log before
  the write and writes nothing; version C writes, then throws at the log after the write.
  Both answer 500.
\<close>

lemma unprintable_status:
  "handler_B (Some ''whsec'') True 9
     (signed_BC ''whsec'' (update_with (JObj [(''toString'', JNum ''1'')]))) ann_db
     = ((500, ErrorDetails ''Internal server error'' TypeError), ann_db)"
  "fst (handler_C (Some ''whsec'') True 9
     (signed_BC ''whsec'' (update_with (JObj [(''toString'', JNum ''1'')]))) ann_db)
     = (500, Error ''Internal server error'')"
  "field_of (snd (handler_C (Some ''whsec'') True 9
     (signed_BC ''whsec'' (update_with (JObj [(''toString'', JNum ''1'')]))) ann_db)) ann ''subscription''
     = Some (Plain (Some (JStr ''free'')))"
  by (simp_all add: B_verified C_verified signed_BC_def post_def update_with_def project_B_def
      project_C_def is_paid_order_def opt_prop_def subscription_updated_B_def
      subscription_updated_C_def then_log_def set_merge_def field_of_def ann_def
      merge_doc_updated_fields plan_of_status_def)

section \<open>The claims\<close>

text \<open>
  Claim C1: with the secret configured, a POST whose signature is missing or wrong is
  rejected and writes nothing. Versions A and B do not do so for a missing signature:
  version A verifies only when the header is there (webhook.js 48), version B lets the
  request through "for testing" (webhook.js 177-181), and both process the event. With
  the secret \<^verbatim>\<open>whsec\<close> and no \<^verbatim>\<open>x-signature\<close> header, the example order is written to an
  empty store and answered 200. (Version C rejects it: \<open>version_C_requires_signature\<close>.)
\<close>

theorem unsigned_request_is_processed:
  "handler_B (Some ''whsec'') True 7 (post None order_text (Some order_event)) empty_db
     = ((200, Received), ann_paid 7)
   \<and> handler_A JSON_parse (Some ''whsec'') True 7 (post None order_text None) empty_db
     = ((200, Received), ann_paid 7)"
  by (simp add: handler_B_def try_B_def handler_A_def try_A_def check_A_def post_def
      rawBody_A_def getRawBody_def parse_order project_order_event project_A_order_event
      set_merge_ann_paid)

text \<open>
  Claim C2: the bytes given to the HMAC are the bytes of the body as transmitted. Version A
  signs the concatenation of the chunks it read (\<open>rawBody_A_exact\<close>). Versions B and C
  sign \<^verbatim>\<open>JSON.stringify(req.body)\<close>: for the example body, which the host's parser reads
  as \<open>order_event\<close>, that text has no spaces and is not the text transmitted.
\<close>

theorem reserialized_body_is_signed:
  "rawBody_BC (post None order_text (JSON_parse order_text)) = Some (JSON_stringify order_event)
   \<and> JSON_stringify order_event \<noteq> order_text
   \<and> rawBody_A (post None order_text None) = order_text"
  by (simp add: rawBody_BC_def rawBody_A_def getRawBody_def post_def parse_order stringify_def
      stringify_order)

text \<open>
  Claim C3, as the code has it: a POST received while the secret is unset (or empty) is
  rejected with nothing processed and nothing written; version B answers 500, "Webhook
  secret not configured", and version C answers 401, "Unauthorized".
\<close>

theorem missing_secret_is_rejected:
  assumes "http_method req = ''POST''" and "absent secret"
  shows "handler_B secret ok now req db = ((500, Error ''Webhook secret not configured''), db)
       \<and> handler_C secret ok now req db = ((401, Error ''Unauthorized''), db)"
  using assms by (simp add: handler_B_def try_B_def handler_C_def try_C_def)

text \<open>
  The theorem at the example order, sent with no signature.
\<close>

theorem missing_secret_is_rejected_witness:
  "handler_B None True 7 (post None order_text (Some order_event)) empty_db
     = ((500, Error ''Webhook secret not configured''), empty_db)
   \<and> handler_C (Some []) True 7 (post None order_text (Some order_event)) empty_db
     = ((401, Error ''Unauthorized''), empty_db)"
  using missing_secret_is_rejected [of "post None order_text (Some order_event)" None True 7 empty_db]
        missing_secret_is_rejected [of "post None order_text (Some order_event)" "Some []" True 7 empty_db]
  by (simp add: post_def)

text \<open>
  Claim C3 as stated asks for a 500: version C, with the secret unset, answers 401.
\<close>

theorem missing_secret_401_in_version_C:
  "fst (handler_C None True 7 (post (Some ''abc'') order_text (Some order_event)) empty_db)
     = (401, Error ''Unauthorized'')"
  by (simp add: handler_C_def try_C_def post_def)

text \<open>
  Claim C4: verification of a signature with one bit changed returns false. Take the
  digest of any body under any secret and flip the top bit of its first byte: the header
  then holds a character outside ASCII, \<^verbatim>\<open>Buffer.from\<close> makes 65 bytes of it, and in
  version C \<^verbatim>\<open>timingSafeEqual\<close> throws a RangeError out of \<^verbatim>\<open>verifySignature\<close>, which
  has no \<^verbatim>\<open>try\<close>. Version B's returns false.
\<close>

theorem mutated_signature_throws:
  "verifySignature_C (Some msg) (Some (header_text (mutate_bit 0 7 (hmac_hex sk msg)))) (Some sk)
     = Inl RangeError
   \<and> \<not> verifySignature_B (Some msg) (Some (header_text (mutate_bit 0 7 (hmac_hex sk msg)))) (Some sk)"
proof -
  have "length (header_text (mutate_bit 0 7 (hmac_hex sk msg))) = 65"
    by (rule length_mutated) (auto simp: hmac_hex_def hex_ascii)
  then show ?thesis
    by (auto simp: timingSafeEqual_def)
qed

text \<open>
  Claim C5. A verified \<^verbatim>\<open>order_created\<close> event whose \<^verbatim>\<open>attributes.status\<close> is \<^verbatim>\<open>paid\<close>,
  whose \<^verbatim>\<open>user_email\<close> is text, and whose product name is text, or is absent, \<open>null\<close>,
  \<open>false\<close> or zero and then counts as the empty text: versions B and C call for one
  merge-upsert, keyed by the email, of the email, \<^verbatim>\<open>subscription = premium\<close>, the
  subscription type, the purchase date, the order id and the product name. The
  subscription type is \<^verbatim>\<open>yearly\<close> exactly when the product name contains \<^verbatim>\<open>yearly\<close> up to
  case, and \<^verbatim>\<open>lifetime\<close> otherwise. When the store accepts the write the record holds
  these fields over what it held, and the answer is 200; when it refuses, the answer is
  500.
\<close>

theorem order_created_paid_upsert:
  assumes "http_method req = ''POST''" and "body req = Some ev"
    and "x_signature req = Some (hmac_hex sk (JSON_stringify ev))" and "sk \<noteq> []"
    and "get_prop (Some ev) ''meta'' = Inr meta"
    and "opt_prop meta ''event_name'' = Some (JStr ''order_created'')"
    and "get_prop (Some ev) ''data'' = Inr data"
    and "opt_prop data ''attributes'' = attributes"
    and "opt_prop attributes ''status'' = Some (JStr ''paid'')"
    and "opt_prop attributes ''user_email'' = Some (JStr email)"
    and "opt_prop (opt_prop attributes ''first_order_item'') ''product_name'' = product"
    and "product = Some (JStr name)
         \<or> (name = [] \<and> (product = None \<or> product = Some JNull
                            \<or> product = Some (JBool False) \<or> product = Some (JNum ''0'')))"
    and "subscriptionType =
           (if contains_ignoring_case name ''yearly'' then ''yearly'' else ''lifetime'')"
    and "written = [(''email'', Val (Some (JStr email))),
                    (''subscription'', Val (Some (JStr ''premium''))),
                    (''subscriptionType'', Val (Some (JStr subscriptionType))),
                    (''purchaseDate'', ServerTimestamp),
                    (''lemonSqueezyOrderId'', Val (opt_prop data ''id'')),
                    (''productName'', Val (Some (JStr name)))]"
    and "doc = (case docs db (Some (JStr email)) of None \<Rightarrow> Map.empty | Some d \<Rightarrow> d)
           ++ [''email'' \<mapsto> Plain (Some (JStr email)),
               ''subscription'' \<mapsto> Plain (Some (JStr ''premium'')),
               ''subscriptionType'' \<mapsto> Plain (Some (JStr subscriptionType)),
               ''purchaseDate'' \<mapsto> Timestamp now,
               ''lemonSqueezyOrderId'' \<mapsto> Plain (opt_prop data ''id''),
               ''productName'' \<mapsto> Plain (Some (JStr name))]"
  shows "handler_C (Some sk) ok now req db =
           (if ok then ((200, Received),
                        db\<lparr>docs := (docs db)(Some (JStr email) := Some doc),
                           upserts := upserts db @ [(Some (JStr email), written)]\<rparr>)
            else ((500, Error ''Internal server error''),
                  db\<lparr>upserts := upserts db @ [(Some (JStr email), written)]\<rparr>))
       \<and> handler_B (Some sk) ok now req db =
           (if ok then ((200, Received),
                        db\<lparr>docs := (docs db)(Some (JStr email) := Some doc),
                           upserts := upserts db @ [(Some (JStr email), written)]\<rparr>)
            else ((500, ErrorDetails ''Internal server error'' StoreError),
                  db\<lparr>upserts := upserts db @ [(Some (JStr email), written)]\<rparr>))"
proof -
  have n: "or_empty (opt_prop (opt_prop attributes ''first_order_item'') ''product_name'')
             = Some (JStr name)"
    using named_or_empty [OF assms(12)] assms(11) by simp
  have t: "subscriptionType = type_of_name name"
    using assms(13) by (simp add: type_of_name_def contains_yearly)
  have w: "written = order_fields (Some (JStr email)) (type_of_name name) (opt_prop data ''id'')
                       (Some (JStr name))"
    using assms(14) t by (simp add: order_fields_def)
  note p = project_paid_order [OF assms(5-10) n, folded w]
  have r: "doc = merge_doc now (docs db (Some (JStr email))) written"
    unfolding w using assms(15) t by (simp add: merge_doc_order_fields)
  show ?thesis
    unfolding C_verified [OF assms(1-4)] B_verified [OF assms(1-4)] p
    by (simp add: set_merge_def r)
qed

text \<open>
  The theorem at three orders written to an empty store: "Pro Yearly Plan" is typed
  \<^verbatim>\<open>yearly\<close>, "Pro Lifetime Plan" is typed \<^verbatim>\<open>lifetime\<close>, and so is an order with no
  product name, whose name is stored as the empty text.
\<close>

theorem order_created_paid_upsert_witness:
  "handler_C (Some ''whsec'') True 7 (signed_BC ''whsec'' (order_named ''Pro Yearly Plan'')) empty_db =
     ((200, Received),
      \<lparr>docs = (\<lambda>k. None)(ann := Some [''email'' \<mapsto> Plain ann,
               ''subscription'' \<mapsto> Plain (Some (JStr ''premium'')),
               ''subscriptionType'' \<mapsto> Plain (Some (JStr ''yearly'')),
               ''purchaseDate'' \<mapsto> Timestamp 7,
               ''lemonSqueezyOrderId'' \<mapsto> Plain (Some (JStr ''1001'')),
               ''productName'' \<mapsto> Plain (Some (JStr ''Pro Yearly Plan''))]),
       upserts = [(ann, [(''email'', Val ann),
                         (''subscription'', Val (Some (JStr ''premium''))),
                         (''subscriptionType'', Val (Some (JStr ''yearly''))),
                         (''purchaseDate'', ServerTimestamp),
                         (''lemonSqueezyOrderId'', Val (Some (JStr ''1001''))),
                         (''productName'', Val (Some (JStr ''Pro Yearly Plan'')))])]\<rparr>)
   \<and> handler_B (Some ''whsec'') True 7 (signed_BC ''whsec'' (order_named ''Pro Lifetime Plan'')) empty_db =
     ((200, Received),
      \<lparr>docs = (\<lambda>k. None)(ann := Some [''email'' \<mapsto> Plain ann,
               ''subscription'' \<mapsto> Plain (Some (JStr ''premium'')),
               ''subscriptionType'' \<mapsto> Plain (Some (JStr ''lifetime'')),
               ''purchaseDate'' \<mapsto> Timestamp 7,
               ''lemonSqueezyOrderId'' \<mapsto> Plain (Some (JStr ''1001'')),
               ''productName'' \<mapsto> Plain (Some (JStr ''Pro Lifetime Plan''))]),
       upserts = [(ann, [(''email'', Val ann),
                         (''subscription'', Val (Some (JStr ''premium''))),
                         (''subscriptionType'', Val (Some (JStr ''lifetime''))),
                         (''purchaseDate'', ServerTimestamp),
                         (''lemonSqueezyOrderId'', Val (Some (JStr ''1001''))),
                         (''productName'', Val (Some (JStr ''Pro Lifetime Plan'')))])]\<rparr>)
   \<and> handler_C (Some ''whsec'') True 7 (signed_BC ''whsec'' order_unnamed) empty_db =
     ((200, Received),
      \<lparr>docs = (\<lambda>k. None)(ann := Some [''email'' \<mapsto> Plain ann,
               ''subscription'' \<mapsto> Plain (Some (JStr ''premium'')),
               ''subscriptionType'' \<mapsto> Plain (Some (JStr ''lifetime'')),
               ''purchaseDate'' \<mapsto> Timestamp 7,
               ''lemonSqueezyOrderId'' \<mapsto> Plain (Some (JStr ''1001'')),
               ''productName'' \<mapsto> Plain (Some (JStr []))]),
       upserts = [(ann, [(''email'', Val ann),
                         (''subscription'', Val (Some (JStr ''premium''))),
                         (''subscriptionType'', Val (Some (JStr ''lifetime''))),
                         (''purchaseDate'', ServerTimestamp),
                         (''lemonSqueezyOrderId'', Val (Some (JStr ''1001''))),
                         (''productName'', Val (Some (JStr [])))])]\<rparr>)
   \<and> fst (handler_B (Some ''whsec'') False 7 (signed_BC ''whsec'' (order_named ''Pro Yearly Plan'')) empty_db)
       = (500, ErrorDetails ''Internal server error'' StoreError)"
proof -
  have y: "handler_C (Some ''whsec'') ok 7 (signed_BC ''whsec'' (order_named ''Pro Yearly Plan'')) empty_db =
      (if ok then ((200, Received),
        \<lparr>docs = (\<lambda>k. None)(ann := Some [''email'' \<mapsto> Plain ann,
               ''subscription'' \<mapsto> Plain (Some (JStr ''premium'')),
               ''subscriptionType'' \<mapsto> Plain (Some (JStr ''yearly'')),
               ''purchaseDate'' \<mapsto> Timestamp 7,
               ''lemonSqueezyOrderId'' \<mapsto> Plain (Some (JStr ''1001'')),
               ''productName'' \<mapsto> Plain (Some (JStr ''Pro Yearly Plan''))]),
         upserts = [(ann, [(''email'', Val ann),
                         (''subscription'', Val (Some (JStr ''premium''))),
                         (''subscriptionType'', Val (Some (JStr ''yearly''))),
                         (''purchaseDate'', ServerTimestamp),
                         (''lemonSqueezyOrderId'', Val (Some (JStr ''1001''))),
                         (''productName'', Val (Some (JStr ''Pro Yearly Plan'')))])]\<rparr>)
       else ((500, Error ''Internal server error''),
        \<lparr>docs = (\<lambda>k. None),
         upserts = [(ann, [(''email'', Val ann),
                         (''subscription'', Val (Some (JStr ''premium''))),
                         (''subscriptionType'', Val (Some (JStr ''yearly''))),
                         (''purchaseDate'', ServerTimestamp),
                         (''lemonSqueezyOrderId'', Val (Some (JStr ''1001''))),
                         (''productName'', Val (Some (JStr ''Pro Yearly Plan'')))])]\<rparr>))
    \<and> fst (handler_B (Some ''whsec'') False 7 (signed_BC ''whsec'' (order_named ''Pro Yearly Plan'')) empty_db)
       = (500, ErrorDetails ''Internal server error'' StoreError)" for ok
    using order_created_paid_upsert [where req = "signed_BC ''whsec'' (order_named ''Pro Yearly Plan'')"
        and ev = "order_named ''Pro Yearly Plan''" and sk = "''whsec''"
        and meta = "Some (JObj [(''event_name'', JStr ''order_created'')])"
        and data = "opt_prop (Some (order_named ''Pro Yearly Plan'')) ''data''"
        and attributes = "opt_prop (opt_prop (Some (order_named ''Pro Yearly Plan'')) ''data'') ''attributes''"
        and email = "''ann@example.com''" and product = "Some (JStr ''Pro Yearly Plan'')"
        and name = "''Pro Yearly Plan''" and subscriptionType = "''yearly''"
        and db = empty_db and now = 7 and ok = ok, OF _ _ _ _ _ _ _ _ _ _ _ _ _ refl refl]
      order_created_paid_upsert [where req = "signed_BC ''whsec'' (order_named ''Pro Yearly Plan'')"
        and ev = "order_named ''Pro Yearly Plan''" and sk = "''whsec''"
        and meta = "Some (JObj [(''event_name'', JStr ''order_created'')])"
        and data = "opt_prop (Some (order_named ''Pro Yearly Plan'')) ''data''"
        and attributes = "opt_prop (opt_prop (Some (order_named ''Pro Yearly Plan'')) ''data'') ''attributes''"
        and email = "''ann@example.com''" and product = "Some (JStr ''Pro Yearly Plan'')"
        and name = "''Pro Yearly Plan''" and subscriptionType = "''yearly''"
        and db = empty_db and now = 7 and ok = False, OF _ _ _ _ _ _ _ _ _ _ _ _ _ refl refl]
      yearly_name
    by (simp add: signed_BC_def post_def order_named_def opt_prop_def ann_def empty_db_def)
  have l: "handler_B (Some ''whsec'') True 7 (signed_BC ''whsec'' (order_named ''Pro Lifetime Plan'')) empty_db =
     ((200, Received),
      \<lparr>docs = (\<lambda>k. None)(ann := Some [''email'' \<mapsto> Plain ann,
               ''subscription'' \<mapsto> Plain (Some (JStr ''premium'')),
               ''subscriptionType'' \<mapsto> Plain (Some (JStr ''lifetime'')),
               ''purchaseDate'' \<mapsto> Timestamp 7,
               ''lemonSqueezyOrderId'' \<mapsto> Plain (Some (JStr ''1001'')),
               ''productName'' \<mapsto> Plain (Some (JStr ''Pro Lifetime Plan''))]),
       upserts = [(ann, [(''email'', Val ann),
                         (''subscription'', Val (Some (JStr ''premium''))),
                         (''subscriptionType'', Val (Some (JStr ''lifetime''))),
                         (''purchaseDate'', ServerTimestamp),
                         (''lemonSqueezyOrderId'', Val (Some (JStr ''1001''))),
                         (''productName'', Val (Some (JStr ''Pro Lifetime Plan'')))])]\<rparr>)"
    using order_created_paid_upsert [where req = "signed_BC ''whsec'' (order_named ''Pro Lifetime Plan'')"
        and ev = "order_named ''Pro Lifetime Plan''" and sk = "''whsec''"
        and meta = "Some (JObj [(''event_name'', JStr ''order_created'')])"
        and data = "opt_prop (Some (order_named ''Pro Lifetime Plan'')) ''data''"
        and attributes = "opt_prop (opt_prop (Some (order_named ''Pro Lifetime Plan'')) ''data'') ''attributes''"
        and email = "''ann@example.com''" and product = "Some (JStr ''Pro Lifetime Plan'')"
        and name = "''Pro Lifetime Plan''" and subscriptionType = "''lifetime''"
        and db = empty_db and now = 7 and ok = True, OF _ _ _ _ _ _ _ _ _ _ _ _ _ refl refl]
      lifetime_name
    by (simp add: signed_BC_def post_def order_named_def opt_prop_def ann_def empty_db_def)
  have u: "handler_C (Some ''whsec'') True 7 (signed_BC ''whsec'' order_unnamed) empty_db =
     ((200, Received),
      \<lparr>docs = (\<lambda>k. None)(ann := Some [''email'' \<mapsto> Plain ann,
               ''subscription'' \<mapsto> Plain (Some (JStr ''premium'')),
               ''subscriptionType'' \<mapsto> Plain (Some (JStr ''lifetime'')),
               ''purchaseDate'' \<mapsto> Timestamp 7,
               ''lemonSqueezyOrderId'' \<mapsto> Plain (Some (JStr ''1001'')),
               ''productName'' \<mapsto> Plain (Some (JStr []))]),
       upserts = [(ann, [(''email'', Val ann),
                         (''subscription'', Val (Some (JStr ''premium''))),
                         (''subscriptionType'', Val (Some (JStr ''lifetime''))),
                         (''purchaseDate'', ServerTimestamp),
                         (''lemonSqueezyOrderId'', Val (Some (JStr ''1001''))),
                         (''productName'', Val (Some (JStr [])))])]\<rparr>)"
    using order_created_paid_upsert [where req = "signed_BC ''whsec'' order_unnamed"
        and ev = order_unnamed and sk = "''whsec''"
        and meta = "Some (JObj [(''event_name'', JStr ''order_created'')])"
        and data = "opt_prop (Some order_unnamed) ''data''"
        and attributes = "opt_prop (opt_prop (Some order_unnamed) ''data'') ''attributes''"
        and email = "''ann@example.com''" and product = None
        and name = "[]" and subscriptionType = "''lifetime''"
        and db = empty_db and now = 7 and ok = True, OF _ _ _ _ _ _ _ _ _ _ _ _ _ refl refl]
      no_name
    by (simp add: signed_BC_def post_def order_unnamed_def opt_prop_def ann_def empty_db_def)
  show ?thesis
    using y [of True] l u by simp
qed

text \<open>
  Claim C6. A verified \<^verbatim>\<open>subscription_updated\<close> event whose \<^verbatim>\<open>user_email\<close> is text and
  whose status is not an object or an array: versions B and C call for one merge-upsert,
  keyed by the email, that sets \<^verbatim>\<open>subscription\<close> to \<^verbatim>\<open>premium\<close> exactly when the status
  is \<^verbatim>\<open>active\<close> or \<^verbatim>\<open>on_trial\<close> and to \<^verbatim>\<open>free\<close> for every other status,
  \<^verbatim>\<open>subscriptionStatus\<close> to the status as it came, and \<^verbatim>\<open>lastUpdated\<close> to the store's
  time. When the store accepts the write the answer is 200; when it refuses, 500.
\<close>

theorem subscription_updated_upsert:
  assumes "http_method req = ''POST''" and "body req = Some ev"
    and "x_signature req = Some (hmac_hex sk (JSON_stringify ev))" and "sk \<noteq> []"
    and "get_prop (Some ev) ''meta'' = Inr meta"
    and "opt_prop meta ''event_name'' = Some (JStr ''subscription_updated'')"
    and "get_prop (Some ev) ''data'' = Inr data"
    and "opt_prop data ''attributes'' = attributes"
    and "opt_prop attributes ''user_email'' = Some (JStr email)"
    and "opt_prop attributes ''status'' = status"
    and "\<forall>kvs. status \<noteq> Some (JObj kvs)" and "\<forall>vs. status \<noteq> Some (JArr vs)"
    and "subscription =
           (if status = Some (JStr ''active'') \<or> status = Some (JStr ''on_trial'')
            then ''premium'' else ''free'')"
    and "written = [(''email'', Val (Some (JStr email))),
                    (''subscription'', Val (Some (JStr subscription))),
                    (''subscriptionStatus'', Val status),
                    (''lastUpdated'', ServerTimestamp)]"
    and "doc = (case docs db (Some (JStr email)) of None \<Rightarrow> Map.empty | Some d \<Rightarrow> d)
           ++ [''email'' \<mapsto> Plain (Some (JStr email)),
               ''subscription'' \<mapsto> Plain (Some (JStr subscription)),
               ''subscriptionStatus'' \<mapsto> Plain status,
               ''lastUpdated'' \<mapsto> Timestamp now]"
  shows "handler_C (Some sk) ok now req db =
           (if ok then ((200, Received),
                        db\<lparr>docs := (docs db)(Some (JStr email) := Some doc),
                           upserts := upserts db @ [(Some (JStr email), written)]\<rparr>)
            else ((500, Error ''Internal server error''),
                  db\<lparr>upserts := upserts db @ [(Some (JStr email), written)]\<rparr>))
       \<and> handler_B (Some sk) ok now req db =
           (if ok then ((200, Received),
                        db\<lparr>docs := (docs db)(Some (JStr email) := Some doc),
                           upserts := upserts db @ [(Some (JStr email), written)]\<rparr>)
            else ((500, ErrorDetails ''Internal server error'' StoreError),
                  db\<lparr>upserts := upserts db @ [(Some (JStr email), written)]\<rparr>))"
proof -
  have s: "subscription = plan_of_status status"
    using assms(13) by (simp add: plan_of_status_def)
  have w: "written = updated_fields (Some (JStr email)) status"
    using assms(14) s by (simp add: updated_fields_def)
  have r: "doc = merge_doc now (docs db (Some (JStr email))) written"
    unfolding w using assms(15) s by (simp add: merge_doc_updated_fields)
  note p = project_updated [OF assms(5-12), folded w]
  show ?thesis
    unfolding C_verified [OF assms(1-4)] B_verified [OF assms(1-4)] p
    by (simp add: set_merge_def r)
qed

text \<open>
  The theorem at the statuses \<^verbatim>\<open>on_trial\<close>, \<^verbatim>\<open>active\<close> and \<^verbatim>\<open>cancelled\<close>, over a record
  written by an earlier purchase.
\<close>

theorem subscription_updated_upsert_witness:
  "fst (handler_C (Some ''whsec'') True 9 (signed_BC ''whsec'' (update_event ''on_trial'')) ann_db)
     = (200, Received)
   \<and> field_of (snd (handler_C (Some ''whsec'') True 9
       (signed_BC ''whsec'' (update_event ''on_trial'')) ann_db)) ann ''subscription''
     = Some (Plain (Some (JStr ''premium'')))
   \<and> field_of (snd (handler_B (Some ''whsec'') True 9
       (signed_BC ''whsec'' (update_event ''active'')) ann_db)) ann ''subscription''
     = Some (Plain (Some (JStr ''premium'')))
   \<and> fst (handler_B (Some ''whsec'') True 9 (signed_BC ''whsec'' (update_event ''cancelled'')) ann_db)
     = (200, Received)
   \<and> field_of (snd (handler_C (Some ''whsec'') True 9
       (signed_BC ''whsec'' (update_event ''cancelled'')) ann_db)) ann ''subscription''
     = Some (Plain (Some (JStr ''free'')))
   \<and> field_of (snd (handler_B (Some ''whsec'') True 9
       (signed_BC ''whsec'' (update_event ''cancelled'')) ann_db)) ann ''subscriptionStatus''
     = Some (Plain (Some (JStr ''cancelled'')))
   \<and> field_of (snd (handler_B (Some ''whsec'') True 9
       (signed_BC ''whsec'' (update_event ''cancelled'')) ann_db)) ann ''lastUpdated''
     = Some (Timestamp 9)
   \<and> upserts (snd (handler_B (Some ''whsec'') True 9
       (signed_BC ''whsec'' (update_event ''cancelled'')) ann_db))
     = [(ann, [(''email'', Val ann),
               (''subscription'', Val (Some (JStr ''free''))),
               (''subscriptionStatus'', Val (Some (JStr ''cancelled''))),
               (''lastUpdated'', ServerTimestamp)])]"
proof -
  have t: "handler_C (Some ''whsec'') True 9 (signed_BC ''whsec'' (update_event st)) ann_db
         = ((200, Received),
            ann_db\<lparr>docs := (docs ann_db)(ann := Some
                      ((case docs ann_db ann of None \<Rightarrow> Map.empty | Some d \<Rightarrow> d)
                       ++ [''email'' \<mapsto> Plain ann,
                           ''subscription'' \<mapsto> Plain (Some (JStr sub)),
                           ''subscriptionStatus'' \<mapsto> Plain (Some (JStr st)),
                           ''lastUpdated'' \<mapsto> Timestamp 9])),
                   upserts := upserts ann_db @
                      [(ann, [(''email'', Val ann),
                              (''subscription'', Val (Some (JStr sub))),
                              (''subscriptionStatus'', Val (Some (JStr st))),
                              (''lastUpdated'', ServerTimestamp)])]\<rparr>)
       \<and> handler_B (Some ''whsec'') True 9 (signed_BC ''whsec'' (update_event st)) ann_db
         = ((200, Received),
            ann_db\<lparr>docs := (docs ann_db)(ann := Some
                      ((case docs ann_db ann of None \<Rightarrow> Map.empty | Some d \<Rightarrow> d)
                       ++ [''email'' \<mapsto> Plain ann,
                           ''subscription'' \<mapsto> Plain (Some (JStr sub)),
                           ''subscriptionStatus'' \<mapsto> Plain (Some (JStr st)),
                           ''lastUpdated'' \<mapsto> Timestamp 9])),
                   upserts := upserts ann_db @
                      [(ann, [(''email'', Val ann),
                              (''subscription'', Val (Some (JStr sub))),
                              (''subscriptionStatus'', Val (Some (JStr st))),
                              (''lastUpdated'', ServerTimestamp)])]\<rparr>)"
    if "sub = (if st = ''active'' \<or> st = ''on_trial'' then ''premium'' else ''free'')" for st sub
    using subscription_updated_upsert [where req = "signed_BC ''whsec'' (update_event st)"
        and ev = "update_event st" and sk = "''whsec''"
        and meta = "Some (JObj [(''event_name'', JStr ''subscription_updated'')])"
        and data = "opt_prop (Some (update_event st)) ''data''"
        and attributes = "opt_prop (opt_prop (Some (update_event st)) ''data'') ''attributes''"
        and email = "''ann@example.com''" and status = "Some (JStr st)" and subscription = sub
        and db = ann_db and now = 9 and ok = True, OF _ _ _ _ _ _ _ _ _ _ _ _ _ refl refl]
      that
    by (simp add: signed_BC_def post_def update_event_def opt_prop_def ann_def)
  show ?thesis
    using t [of "''premium''" "''on_trial''"] t [of "''premium''" "''active''"]
      t [of "''free''" "''cancelled''"]
    by (simp add: field_of_def ann_db_def)
qed

text \<open>
  Claim C7, as the code has it. An \<^verbatim>\<open>order_created\<close> event delivered twice, in versions A
  and C: after the second delivery every stored field but \<^verbatim>\<open>purchaseDate\<close> is what it was
  after the first, when the store accepted the first; and the store is what one delivery
  at the time of the second leaves, when the store accepts the second. Nothing depends on
  the record as it was, and nothing accumulates; \<^verbatim>\<open>purchaseDate\<close> is the store's time of
  the last write.
\<close>

theorem order_created_redelivery:
  assumes "get_prop (body req) ''meta'' = Inr meta"
    and "opt_prop meta ''event_name'' = Some (JStr ''order_created'')"
  shows "(\<forall>k f. f \<noteq> ''purchaseDate'' \<longrightarrow>
            field_of (snd (handler_C secret ok2 t2 req (snd (handler_C secret True t1 req db)))) k f
              = field_of (snd (handler_C secret True t1 req db)) k f)
       \<and> docs (snd (handler_C secret True t2 req (snd (handler_C secret ok1 t1 req db))))
           = docs (snd (handler_C secret True t2 req db))
       \<and> (\<forall>k f. f \<noteq> ''purchaseDate'' \<longrightarrow>
            field_of (snd (handler_A parse secret ok2 t2 reqA
                             (snd (handler_A parse secret True t1 reqA db)))) k f
              = field_of (snd (handler_A parse secret True t1 reqA db)) k f)
       \<and> docs (snd (handler_A parse secret True t2 reqA
                        (snd (handler_A parse secret ok1 t1 reqA db))))
           = docs (snd (handler_A parse secret True t2 reqA db))"
proof -
  obtain c where c: "\<And>ok now db. snd (handler_C secret ok now req db)
                       = (if c then snd (project_C ok now (body req) db) else db)"
    using handler_C_snd [of secret req] by blast
  obtain a ev where a: "\<And>ok now db. snd (handler_A parse secret ok now reqA db)
                       = (if a then snd (project_A ok now ev db) else db)"
    using handler_A_snd [of parse secret reqA] by blast
  note p = project_order_snd [OF assms]
  show ?thesis
    by (simp add: c a p project_A_snd order_created_twice_docs order_created_twice_fields
        split: sum.splits)
qed

text \<open>
  The theorem at the example order, delivered at the times 3 and 8.
\<close>

theorem order_created_redelivery_witness:
  "field_of (snd (handler_C (Some ''whsec'') True 8 (signed_BC ''whsec'' order_event)
       (snd (handler_C (Some ''whsec'') True 3 (signed_BC ''whsec'' order_event) empty_db))))
     ann ''subscriptionType'' = Some (Plain (Some (JStr ''yearly'')))
   \<and> docs (snd (handler_C (Some ''whsec'') True 8 (signed_BC ''whsec'' order_event)
       (snd (handler_C (Some ''whsec'') True 3 (signed_BC ''whsec'' order_event) empty_db))))
     = docs (ann_paid 8)
   \<and> docs (snd (handler_A JSON_parse (Some ''whsec'') True 8 (signed_A ''whsec'' order_text)
       (snd (handler_A JSON_parse (Some ''whsec'') True 3 (signed_A ''whsec'' order_text) empty_db))))
     = docs (snd (handler_A JSON_parse (Some ''whsec'') True 8 (signed_A ''whsec'' order_text) empty_db))"
proof -
  have m: "get_prop (body (signed_BC ''whsec'' order_event)) ''meta''
             = Inr (Some (JObj [(''event_name'', JStr ''order_created'')]))"
    by (simp add: signed_BC_def post_def order_event_def)
  have n: "opt_prop (Some (JObj [(''event_name'', JStr ''order_created'')])) ''event_name''
             = Some (JStr ''order_created'')"
    by (simp add: opt_prop_def)
  note t = order_created_redelivery [OF m n, of "Some ''whsec''" True 8 3 empty_db True JSON_parse
      "signed_A ''whsec'' order_text"]
  have once: "snd (handler_C (Some ''whsec'') True 3 (signed_BC ''whsec'' order_event) empty_db)
                = ann_paid 3"
    by (simp add: handler_C_order_event set_merge_ann_paid)
  have "field_of (snd (handler_C (Some ''whsec'') True 8 (signed_BC ''whsec'' order_event)
          (snd (handler_C (Some ''whsec'') True 3 (signed_BC ''whsec'' order_event) empty_db))))
        ann ''subscriptionType''
      = field_of (snd (handler_C (Some ''whsec'') True 3 (signed_BC ''whsec'' order_event) empty_db))
        ann ''subscriptionType''"
    using t by simp
  then have a: "field_of (snd (handler_C (Some ''whsec'') True 8 (signed_BC ''whsec'' order_event)
          (snd (handler_C (Some ''whsec'') True 3 (signed_BC ''whsec'' order_event) empty_db))))
        ann ''subscriptionType'' = Some (Plain (Some (JStr ''yearly'')))"
    by (simp add: once field_of_def ann_paid_def)
  have "docs (snd (handler_C (Some ''whsec'') True 8 (signed_BC ''whsec'' order_event)
          (snd (handler_C (Some ''whsec'') True 3 (signed_BC ''whsec'' order_event) empty_db))))
      = docs (snd (handler_C (Some ''whsec'') True 8 (signed_BC ''whsec'' order_event) empty_db))"
    using t by simp
  then have b: "docs (snd (handler_C (Some ''whsec'') True 8 (signed_BC ''whsec'' order_event)
          (snd (handler_C (Some ''whsec'') True 3 (signed_BC ''whsec'' order_event) empty_db))))
      = docs (ann_paid 8)"
    by (simp add: handler_C_order_event set_merge_ann_paid)
  show ?thesis using a b t by simp
qed

text \<open>
  Claim C7 as stated: the store after two deliveries is the store after one. It is not:
  the second delivery moves \<^verbatim>\<open>purchaseDate\<close> from 3 to 8.
\<close>

theorem redelivery_moves_purchaseDate:
  "docs (snd (handler_C (Some ''whsec'') True 8 (signed_BC ''whsec'' order_event)
           (snd (handler_C (Some ''whsec'') True 3 (signed_BC ''whsec'' order_event) empty_db))))
     \<noteq> docs (snd (handler_C (Some ''whsec'') True 3 (signed_BC ''whsec'' order_event) empty_db))"
proof
  assume "docs (snd (handler_C (Some ''whsec'') True 8 (signed_BC ''whsec'' order_event)
           (snd (handler_C (Some ''whsec'') True 3 (signed_BC ''whsec'' order_event) empty_db))))
     = docs (snd (handler_C (Some ''whsec'') True 3 (signed_BC ''whsec'' order_event) empty_db))"
  then have "field_of (snd (handler_C (Some ''whsec'') True 8 (signed_BC ''whsec'' order_event)
           (snd (handler_C (Some ''whsec'') True 3 (signed_BC ''whsec'' order_event) empty_db))))
             ann ''purchaseDate''
     = field_of (snd (handler_C (Some ''whsec'') True 3 (signed_BC ''whsec'' order_event) empty_db))
             ann ''purchaseDate''"
    by (simp add: field_of_def)
  then show False
    by (simp add: handler_C_order_event set_merge_def field_of_def merge_doc_order_fields)
qed

text \<open>
  Claim C8: a signature whose length is not the digest's is answered 401. Version B does
  so. In versions A and C the RangeError of \<^verbatim>\<open>timingSafeEqual\<close> reaches the handler's
  \<^verbatim>\<open>catch\<close>, and the answer is 500: for the signature \<^verbatim>\<open>abc\<close> in version C, and for
  \<^verbatim>\<open>abcd\<close>, two bytes in hexadecimal, in version A.
\<close>

theorem length_mismatch_is_500:
  "handler_C (Some ''whsec'') True 7 (post (Some ''abc'') order_text (Some order_event)) empty_db
     = ((500, Error ''Internal server error''), empty_db)
   \<and> handler_A JSON_parse (Some ''whsec'') True 7 (post (Some ''abcd'') order_text None) empty_db
     = ((500, Error ''Internal server error''), empty_db)
   \<and> handler_B (Some ''whsec'') True 7 (post (Some ''abc'') order_text (Some order_event)) empty_db
     = ((401, Error ''Invalid signature''), empty_db)"
  by (simp add: handler_C_def try_C_def handler_A_def try_A_def check_A_def handler_B_def try_B_def
      post_def rawBody_BC_def stringify_def verify_A_eq hex_value_def timingSafeEqual_def)

text \<open>
  Claim C9. Whatever the store held, a \<^verbatim>\<open>subscription_updated\<close> event handled by version
  B or C leaves every stored field other than \<^verbatim>\<open>email\<close>, \<^verbatim>\<open>subscription\<close>,
  \<^verbatim>\<open>subscriptionStatus\<close> and \<^verbatim>\<open>lastUpdated\<close> as it was, in every record.
\<close>

theorem subscription_updated_touches_four_fields:
  assumes "get_prop (body req) ''meta'' = Inr meta"
    and "opt_prop meta ''event_name'' = Some (JStr ''subscription_updated'')"
    and "f \<notin> {''email'', ''subscription'', ''subscriptionStatus'', ''lastUpdated''}"
  shows "field_of (snd (handler_C secret ok now req db)) k f = field_of db k f
       \<and> field_of (snd (handler_B secret ok now req db)) k f = field_of db k f"
proof -
  obtain c where c: "\<And>ok now db. snd (handler_C secret ok now req db)
                       = (if c then snd (project_C ok now (body req) db) else db)"
    using handler_C_snd [of secret req] by blast
  obtain b where b: "\<And>ok now db. snd (handler_B secret ok now req db)
                       = (if b then snd (project_B ok now (body req) db) else db)"
    using handler_B_snd [of secret req] by blast
  show ?thesis
    by (simp add: c b project_updated_frame [OF assms])
qed

text \<open>
  The theorem at a record written by an earlier purchase: its subscription type and its
  purchase date survive a cancellation.
\<close>

theorem subscription_updated_touches_four_fields_witness:
  "field_of (snd (handler_C (Some ''whsec'') True 9
       (signed_BC ''whsec'' (update_event ''cancelled'')) ann_db)) ann ''subscriptionType''
     = Some (Plain (Some (JStr ''lifetime'')))
   \<and> field_of (snd (handler_B (Some ''whsec'') True 9
       (signed_BC ''whsec'' (update_event ''cancelled'')) ann_db)) ann ''purchaseDate''
     = Some (Timestamp 5)"
  using subscription_updated_touches_four_fields [of "signed_BC ''whsec'' (update_event ''cancelled'')"
      "Some (JObj [(''event_name'', JStr ''subscription_updated'')])" "''subscriptionType''"
      "Some ''whsec''" True 9 ann_db ann]
    subscription_updated_touches_four_fields [of "signed_BC ''whsec'' (update_event ''cancelled'')"
      "Some (JObj [(''event_name'', JStr ''subscription_updated'')])" "''purchaseDate''"
      "Some ''whsec''" True 9 ann_db ann]
  by (simp add: signed_BC_def post_def update_event_def opt_prop_def field_of_def ann_db_def)

text \<open>
  Claim C10. A verified POST whose event has no attributes (\<^verbatim>\<open>data.attributes\<close> is
  \<open>undefined\<close> or \<open>null\<close>): for \<^verbatim>\<open>subscription_created\<close> and \<^verbatim>\<open>subscription_updated\<close>
  the read of \<^verbatim>\<open>attributes.user_email\<close> throws, versions B and C answer 500 and write
  nothing; for \<^verbatim>\<open>order_created\<close> the guarded test fails, and they answer 200 and write
  nothing.
\<close>

theorem missing_attributes:
  assumes "http_method req = ''POST''" and "body req = Some ev"
    and "x_signature req = Some (hmac_hex sk (JSON_stringify ev))" and "sk \<noteq> []"
    and "get_prop (Some ev) ''meta'' = Inr meta"
    and "opt_prop meta ''event_name'' = Some (JStr n)"
    and "get_prop (Some ev) ''data'' = Inr data"
    and "opt_prop data ''attributes'' = None \<or> opt_prop data ''attributes'' = Some JNull"
  shows "(n = ''subscription_created'' \<or> n = ''subscription_updated'' \<longrightarrow>
            handler_C (Some sk) ok now req db = ((500, Error ''Internal server error''), db)
          \<and> handler_B (Some sk) ok now req db
               = ((500, ErrorDetails ''Internal server error'' TypeError), db))
       \<and> (n = ''order_created'' \<longrightarrow>
            handler_C (Some sk) ok now req db = ((200, Received), db)
          \<and> handler_B (Some sk) ok now req db = ((200, Received), db))"
proof -
  have "get_prop (opt_prop data ''attributes'') ''user_email'' = Inl TypeError"
    using assms(8) by auto
  note p = project_no_attributes [OF assms(5-7) this]
  show ?thesis
    unfolding C_verified [OF assms(1-4)] B_verified [OF assms(1-4)] p
    by simp
qed

text \<open>
  The theorem at events that carry an id and no attributes.
\<close>

theorem missing_attributes_witness:
  "handler_C (Some ''whsec'') True 9 (signed_BC ''whsec'' (bare_event ''subscription_updated'')) ann_db
     = ((500, Error ''Internal server error''), ann_db)
   \<and> handler_B (Some ''whsec'') True 9 (signed_BC ''whsec'' (bare_event ''subscription_created'')) ann_db
     = ((500, ErrorDetails ''Internal server error'' TypeError), ann_db)
   \<and> handler_C (Some ''whsec'') True 9 (signed_BC ''whsec'' (bare_event ''order_created'')) ann_db
     = ((200, Received), ann_db)"
  using missing_attributes [of "signed_BC ''whsec'' (bare_event ''subscription_updated'')"
      "bare_event ''subscription_updated''" "''whsec''"
      "Some (JObj [(''event_name'', JStr ''subscription_updated'')])" "''subscription_updated''"
      "Some (JObj [(''id'', JStr ''77'')])" True 9 ann_db]
    missing_attributes [of "signed_BC ''whsec'' (bare_event ''subscription_created'')"
      "bare_event ''subscription_created''" "''whsec''"
      "Some (JObj [(''event_name'', JStr ''subscription_created'')])" "''subscription_created''"
      "Some (JObj [(''id'', JStr ''77'')])" True 9 ann_db]
    missing_attributes [of "signed_BC ''whsec'' (bare_event ''order_created'')"
      "bare_event ''order_created''" "''whsec''"
      "Some (JObj [(''event_name'', JStr ''order_created'')])" "''order_created''"
      "Some (JObj [(''id'', JStr ''77'')])" True 9 ann_db]
  by (simp add: signed_BC_def post_def bare_event_def opt_prop_def)

end
